theory Spec2Isabelle
  imports Main "HOL-Library.Char_ord" "HOL-Library.List_Lexorder" "HOL-Library.Mapping"
    "HOL-Library.AList_Mapping"
begin

section \<open>Strings as the script uses them\<close>

text \<open>
  Strings are \<^typ>\<open>string\<close> (lists of characters). The order on strings is the lexicographic
  order by character code of \<^theory_text>\<open>List_Lexorder\<close> and \<^theory_text>\<open>Char_ord\<close>, which is how
  Python's \<^verbatim>\<open>sorted\<close> compares \<^verbatim>\<open>str\<close> values.
\<close>

text \<open>
  A character stands for the code point of its number, below 256. The characters
  \<^verbatim>\<open>str.strip()\<close> and \<^verbatim>\<open>str.split()\<close> treat as whitespace in that range are the ASCII ones
  and the two code points U+0085 and U+00A0.
\<close>

definition is_space :: "char \<Rightarrow> bool" where
  "is_space c = (c \<in> set [CHR 0x09, CHR 0x0A, CHR 0x0B, CHR 0x0C, CHR 0x0D,
                            CHR 0x1C, CHR 0x1D, CHR 0x1E, CHR 0x1F, CHR 0x20,
                            CHR 0x85, CHR 0xA0])"

text \<open>\<^verbatim>\<open>s.strip()\<close>\<close>

definition py_strip :: "string \<Rightarrow> string" where
  "py_strip s = rev (dropWhile is_space (rev (dropWhile is_space s)))"

text \<open>\<^verbatim>\<open>s.split(d)\<close> for a one-character separator: the empty string gives one empty field.\<close>

fun split_on :: "char \<Rightarrow> string \<Rightarrow> string \<Rightarrow> string list" where
  "split_on d cur [] = [cur]"
| "split_on d cur (c # cs) =
     (if c = d then cur # split_on d [] cs else split_on d (cur @ [c]) cs)"

definition split_lines :: "string \<Rightarrow> string list" where
  "split_lines s = split_on (CHR 0x0A) [] s"

text \<open>\<^verbatim>\<open>s.split()\<close>: fields separated by runs of whitespace, no empty field.\<close>

fun split_ws :: "string \<Rightarrow> string \<Rightarrow> string list" where
  "split_ws cur [] = (if cur = [] then [] else [cur])"
| "split_ws cur (c # cs) =
     (if is_space c then (if cur = [] then split_ws [] cs else cur # split_ws [] cs)
      else split_ws (cur @ [c]) cs)"

definition py_split :: "string \<Rightarrow> string list" where
  "py_split s = split_ws [] s"

text \<open>\<^verbatim>\<open>s.startswith(p)\<close>, \<^verbatim>\<open>s.endswith(p)\<close> and \<^verbatim>\<open>p in s\<close>.\<close>

definition starts_with :: "string \<Rightarrow> string \<Rightarrow> bool" where
  "starts_with p s = (take (length p) s = p)"

definition ends_with :: "string \<Rightarrow> string \<Rightarrow> bool" where
  "ends_with p s = (length p \<le> length s \<and> drop (length s - length p) s = p)"

fun str_contains :: "string \<Rightarrow> string \<Rightarrow> bool" where
  "str_contains p [] = (p = [])"
| "str_contains p (c # cs) = (starts_with p (c # cs) \<or> str_contains p cs)"


section \<open>Regular expressions\<close>

text \<open>
  The three patterns of the script use literals, \<^verbatim>\<open>.*\<close>, alternation and groups only.
  \<open>rx_match\<close> is a backtracking matcher in the order of Python's \<^verbatim>\<open>re\<close>: \<^verbatim>\<open>.*\<close> is
  greedy (longest first) and does not cross a newline, the left alternative is tried first.
  The continuation receives the rest of the input and the groups captured so far.
\<close>

datatype regex = Dot_star | Lit string | Alt regex regex | Seq regex regex | Group regex

fun first_some :: "'a option list \<Rightarrow> 'a option" where
  "first_some [] = None"
| "first_some (None # xs) = first_some xs"
| "first_some (Some x # xs) = Some x"

fun rx_match ::
  "regex \<Rightarrow> string \<Rightarrow> string list \<Rightarrow> (string \<Rightarrow> string list \<Rightarrow> string list option)
     \<Rightarrow> string list option" where
  "rx_match (Lit l) s caps k = (if starts_with l s then k (drop (length l) s) caps else None)"
| "rx_match (Alt a b) s caps k =
     (case rx_match a s caps k of Some r \<Rightarrow> Some r | None \<Rightarrow> rx_match b s caps k)"
| "rx_match (Seq a b) s caps k = rx_match a s caps (\<lambda>s' caps'. rx_match b s' caps' k)"
| "rx_match (Group a) s caps k =
     rx_match a s caps (\<lambda>s' caps'. k s' (caps' @ [take (length s - length s') s]))"
| "rx_match Dot_star s caps k =
     first_some (map (\<lambda>n. k (drop n s) caps)
       (rev [0 ..< Suc (length (takeWhile (\<lambda>c. c \<noteq> CHR 0x0A) s))]))"

text \<open>\<^verbatim>\<open>pattern.match(s)\<close>: a match anchored at the start; \<open>Some\<close> of the groups, or \<open>None\<close>.\<close>

definition re_match :: "regex \<Rightarrow> string \<Rightarrow> string list option" where
  "re_match r s = rx_match r s [] (\<lambda>s' caps. Some caps)"

text \<open>\<^verbatim>\<open>reg = re.compile(r".* ELF (64|32)\-bit LSB shared object,")\<close>\<close>

definition reg :: regex where
  "reg = Seq Dot_star (Seq (Lit '' ELF '') (Seq (Group (Alt (Lit ''64'') (Lit ''32'')))
           (Lit ''-bit LSB shared object,'')))"

text \<open>\<^verbatim>\<open>valid_dyn = re.compile(r".* ELF (64|32)\-bit LSB (shared object|executable),")\<close>\<close>

definition valid_dyn :: regex where
  "valid_dyn = Seq Dot_star (Seq (Lit '' ELF '') (Seq (Group (Alt (Lit ''64'') (Lit ''32'')))
           (Seq (Lit ''-bit LSB '') (Seq (Group (Alt (Lit ''shared object'') (Lit ''executable'')))
           (Lit '','')))))"

text \<open>\<^verbatim>\<open>shared_lib = re.compile(r".*Shared library: \[(.*)\].*")\<close>\<close>

definition shared_lib :: regex where
  "shared_lib = Seq Dot_star (Seq (Lit ''Shared library: ['') (Seq (Group Dot_star)
           (Seq (Lit '']'') Dot_star)))"

definition wanted_symbol_types :: "string list" where
  "wanted_symbol_types = [''A'', ''T'']"

definition ignored_symbols :: "string list" where
  "ignored_symbols = [''__bss_start'', ''_edata'', ''_end'', ''_fini'', ''_init'']"

definition valid_dirs :: "string list" where
  "valid_dirs = [''/usr/lib'', ''/usr/lib64'', ''/usr/lib32'', ''/lib'', ''/lib32'', ''/lib64'']"


section \<open>The environment of one run\<close>

text \<open>
  Exceptions are values. A run ends with \<^verbatim>\<open>sys.exit(n)\<close> or with an exception nobody
  catches, for which the interpreter prints a traceback and exits with status 1.
\<close>

datatype py_exn = AttributeError | TypeError | IndexError | OSError | FileNotFoundError
  | UnicodeDecodeError

datatype error = SysExit nat | Uncaught py_exn

fun exit_status :: "error \<Rightarrow> nat" where
  "exit_status (SysExit n) = n"
| "exit_status (Uncaught e) = 1"

text \<open>
  What the script asks of the operating system, as answers it receives:
  \<^item> \<open>subprocess_getoutput cmd\<close> is the result of \<^verbatim>\<open>subprocess.getoutput(cmd)\<close>: the text the
    command printed (whatever its exit status), or the exception raised while running it or
    decoding its output;
  \<^item> \<open>path_exists\<close>, \<open>path_isfile\<close>, \<open>path_islink\<close>, \<open>path_isdir\<close>, \<open>listdir\<close>, \<open>os_walk\<close>,
    \<open>abspath\<close> are the functions of \<^verbatim>\<open>os\<close> and \<^verbatim>\<open>os.path\<close> of these names, answering as at
    the time the script calls them (the extraction tree: after the packages are unpacked);
  \<^item> \<open>rmtree_ok\<close>, \<open>makedirs_ok\<close>, \<open>chdir_ok\<close> say whether \<^verbatim>\<open>shutil.rmtree\<close>, \<^verbatim>\<open>os.makedirs\<close>
    and \<^verbatim>\<open>os.chdir\<close> succeed on a path, \<open>unpack_ok\<close> whether the \<^verbatim>\<open>unpisi\<close> command succeeds
    on a package, \<open>cleanup_ok\<close> whether the final \<open>purge_tree\<close> of the extraction tree
    returns.
  \<^verbatim>\<open>os.getcwd()\<close> and the \<^verbatim>\<open>os.chdir(old_dir)\<close> that undoes it are taken to succeed, as is
  opening a report file for writing.
  The files the script writes are kept apart, in a store from paths to contents;
  \<^verbatim>\<open>os.path.exists\<close> of a report file is read from the store.
\<close>

record world =
  subprocess_getoutput :: "string \<Rightarrow> py_exn + string"
  path_exists :: "string \<Rightarrow> bool"
  path_isfile :: "string \<Rightarrow> bool"
  path_islink :: "string \<Rightarrow> bool"
  path_isdir :: "string \<Rightarrow> bool"
  listdir :: "string \<Rightarrow> string list"
  os_walk :: "string \<Rightarrow> (string \<times> string list \<times> string list) list"
  abspath :: "string \<Rightarrow> string"
  rmtree_ok :: "string \<Rightarrow> bool"
  makedirs_ok :: "string \<Rightarrow> bool"
  chdir_ok :: "string \<Rightarrow> bool"
  unpack_ok :: "string \<Rightarrow> bool"
  cleanup_ok :: "string \<Rightarrow> bool"

type_synonym store = "string \<rightharpoonup> string"

text \<open>\<^verbatim>\<open>os.path.join(a, b)\<close> and \<^verbatim>\<open>os.path.basename(p)\<close> (POSIX).\<close>

definition os_path_join :: "string \<Rightarrow> string \<Rightarrow> string" where
  "os_path_join a b =
     (if starts_with ''/'' b then b
      else if a = [] \<or> ends_with ''/'' a then a @ b
      else a @ ''/'' @ b)"

definition basename :: "string \<Rightarrow> string" where
  "basename p = rev (takeWhile (\<lambda>c. c \<noteq> CHR ''/'') (rev p))"

text \<open>
  Modelled from the spec: \<^verbatim>\<open>util.print_fatal\<close> (module \<^verbatim>\<open>util\<close> is not part of the source
  tree at hand) prints a diagnostic and returns; it never ends the run itself.
\<close>

definition print_fatal :: "string \<Rightarrow> error option" where
  "print_fatal msg = None"


section \<open>Inspection of one file\<close>

text \<open>\<open>get_output\<close> catches every exception of the call and then returns nothing, that is \<open>None\<close>.\<close>

definition get_output :: "world \<Rightarrow> string \<Rightarrow> string option" where
  "get_output w cmd = (case subprocess_getoutput w cmd of Inl e \<Rightarrow> None | Inr out \<Rightarrow> Some out)"

text \<open>
  The command lines, as \<^verbatim>\<open>str.format\<close> builds them (\<open>CHR 0x22\<close> is the double quote):
  \<^verbatim>\<open>objdump -p "{}"|grep SONAME\<close>, \<^verbatim>\<open>readelf -d {}\<close>, \<^verbatim>\<open>file "{}"\<close> and
  \<^verbatim>\<open>nm --defined-only -g --dynamic "{}"\<close>.
\<close>

definition objdump_cmd :: "string \<Rightarrow> string" where
  "objdump_cmd path = ''objdump -p '' @ [CHR 0x22] @ path @ [CHR 0x22] @ ''|grep SONAME''"

definition readelf_cmd :: "string \<Rightarrow> string" where
  "readelf_cmd path = ''readelf -d '' @ path"

definition file_cmd :: "string \<Rightarrow> string" where
  "file_cmd path = ''file '' @ [CHR 0x22] @ path @ [CHR 0x22]"

definition nm_cmd :: "string \<Rightarrow> string" where
  "nm_cmd path = ''nm --defined-only -g --dynamic '' @ [CHR 0x22] @ path @ [CHR 0x22]"

text \<open>
  \<open>get_soname\<close>: with \<open>None\<close> for \<open>line\<close> the test \<^verbatim>\<open>"SONAME" not in line\<close> raises TypeError,
  with fewer than two fields \<^verbatim>\<open>line.split()[1]\<close> raises IndexError; both are caught and give
  \<open>None\<close>.
\<close>

definition get_soname :: "world \<Rightarrow> string \<Rightarrow> string option" where
  "get_soname w path =
     (case get_output w (objdump_cmd path) of
        None \<Rightarrow> None
      | Some line \<Rightarrow>
          if \<not> str_contains ''SONAME'' line then None
          else (case py_split (py_strip line) of
                  f0 # spl # rest \<Rightarrow> Some spl
                | _ \<Rightarrow> None))"

text \<open>
  \<open>get_shared_dependencies\<close> has no handler: with \<open>None\<close> from \<open>get_output\<close>,
  \<^verbatim>\<open>get_output(cmd).split("\n")\<close> raises AttributeError. The pattern has one group, so a match
  always carries \<^verbatim>\<open>group(1)\<close>.
\<close>

fun shared_dependencies_of_lines :: "string list \<Rightarrow> string set \<Rightarrow> string set" where
  "shared_dependencies_of_lines [] ret = ret"
| "shared_dependencies_of_lines (line # ls) ret =
     (case re_match shared_lib (py_strip line) of
        None \<Rightarrow> shared_dependencies_of_lines ls ret
      | Some [] \<Rightarrow> shared_dependencies_of_lines ls ret
      | Some (g # gs) \<Rightarrow> shared_dependencies_of_lines ls (insert g ret))"

definition get_shared_dependencies :: "world \<Rightarrow> string \<Rightarrow> error + string set" where
  "get_shared_dependencies w path =
     (case get_output w (readelf_cmd path) of
        None \<Rightarrow> Inl (Uncaught AttributeError)
      | Some out \<Rightarrow> Inr (shared_dependencies_of_lines (split_lines out) {}))"

text \<open>\<open>get_file_magic\<close>: the first line of the output, stripped; \<open>None\<close> on any exception.\<close>

definition get_file_magic :: "world \<Rightarrow> string \<Rightarrow> string option" where
  "get_file_magic w path =
     (case get_output w (file_cmd path) of
        None \<Rightarrow> None
      | Some out \<Rightarrow> (case split_lines out of [] \<Rightarrow> None | line # ls \<Rightarrow> Some (py_strip line)))"

definition is_dynamic_binary :: "world \<Rightarrow> string \<Rightarrow> bool" where
  "is_dynamic_binary w path =
     (if \<not> path_exists w path \<or> \<not> path_isfile w path then False
      else (case get_file_magic w path of
              None \<Rightarrow> False
            | Some mg \<Rightarrow> if mg = [] then False
                        else if re_match valid_dyn mg \<noteq> None then True else False))"

definition is_file_valid :: "world \<Rightarrow> string \<Rightarrow> bool" where
  "is_file_valid w path =
     (if \<not> path_exists w path \<or> path_islink w path then False
      else (case get_file_magic w path of
              None \<Rightarrow> False
            | Some mg \<Rightarrow> if mg = [] then False
                        else if re_match reg mg \<noteq> None then True else False))"

definition is_32bit :: "world \<Rightarrow> string \<Rightarrow> bool" where
  "is_32bit w path =
     (case get_file_magic w path of
        None \<Rightarrow> False
      | Some mg \<Rightarrow> if mg = [] then False
                  else if str_contains ''ELF 32-bit'' mg then True else False)"

text \<open>
  \<open>dump_symbols\<close>: \<open>get_output\<close> never raises, so the handler around it (which would
  \<^verbatim>\<open>sys.exit(1)\<close>) is never entered; with \<open>None\<close> for \<open>lines\<close>, \<^verbatim>\<open>lines.split("\n")\<close> raises
  AttributeError outside the handler.
\<close>

definition symbol_of_line :: "string \<Rightarrow> string option" where
  "symbol_of_line line =
     (case py_split (py_strip line) of
        [f0, sym_type, sym_id] \<Rightarrow>
          if sym_type \<notin> set wanted_symbol_types then None
          else if sym_id \<in> set ignored_symbols then None
          else Some sym_id
      | _ \<Rightarrow> None)"

fun symbols_of_lines :: "string list \<Rightarrow> string set \<Rightarrow> string set" where
  "symbols_of_lines [] ret = ret"
| "symbols_of_lines (line # ls) ret =
     (case symbol_of_line line of
        None \<Rightarrow> symbols_of_lines ls ret
      | Some sym_id \<Rightarrow> symbols_of_lines ls (insert sym_id ret))"

definition dump_symbols :: "world \<Rightarrow> string \<Rightarrow> error + string set" where
  "dump_symbols w path =
     (case get_output w (nm_cmd path) of
        None \<Rightarrow> Inl (Uncaught AttributeError)
      | Some lines \<Rightarrow> Inr (symbols_of_lines (split_lines lines) {}))"


section \<open>The dependency pass\<close>

text \<open>
  \<open>get_all_native_dependencies\<close> and \<open>get_all_32bit_dependencies\<close> differ in one test only:
  the first skips a file when \<^verbatim>\<open>is_32bit(fpath)\<close>, the second when \<^verbatim>\<open>not is_32bit(fpath)\<close>.
  The loops are written once, with the wanted answer of \<open>is_32bit\<close> as \<open>want32\<close>. The
  accumulator is the pair of the sets \<open>sonames\<close> and \<open>examine\<close>.
\<close>

definition visit_file :: "world \<Rightarrow> bool \<Rightarrow> string \<Rightarrow> string set \<times> string set
    \<Rightarrow> string set \<times> string set" where
  "visit_file w want32 fpath acc =
     (case acc of (sonames, examine) \<Rightarrow>
        if \<not> is_dynamic_binary w fpath then (sonames, examine)
        else if is_32bit w fpath \<noteq> want32 then (sonames, examine)
        else
          let sonames' =
                (if is_file_valid w fpath
                 then (case get_soname w fpath of
                         Some soname \<Rightarrow> insert soname sonames
                       | None \<Rightarrow> sonames)
                 else sonames);
              examine' = (if is_dynamic_binary w fpath then insert fpath examine else examine)
          in (sonames', examine'))"

fun visit_files :: "world \<Rightarrow> bool \<Rightarrow> string \<Rightarrow> string list \<Rightarrow> string set \<times> string set
    \<Rightarrow> string set \<times> string set" where
  "visit_files w want32 root [] acc = acc"
| "visit_files w want32 root (file # files) acc =
     visit_files w want32 root files (visit_file w want32 (os_path_join root file) acc)"

fun visit_walk :: "world \<Rightarrow> bool \<Rightarrow> (string \<times> string list \<times> string list) list
    \<Rightarrow> string set \<times> string set \<Rightarrow> string set \<times> string set" where
  "visit_walk w want32 [] acc = acc"
| "visit_walk w want32 ((root, dirs, files) # rest) acc =
     visit_walk w want32 rest (visit_files w want32 root files acc)"

text \<open>
  The second loop, \<^verbatim>\<open>for path in examine\<close>, runs over a set, in an order Python does not
  fix; the first \<open>get_shared_dependencies\<close> that raises ends it. The model runs it in sorted
  order. The only exception is AttributeError and the result is a union, so the order does
  not show in the result (lemma \<open>deps_loop_eq\<close> below).
\<close>

fun deps_loop :: "world \<Rightarrow> string set \<Rightarrow> string list \<Rightarrow> string set \<Rightarrow> error + string set" where
  "deps_loop w sonames [] deps = Inr deps"
| "deps_loop w sonames (path # paths) deps =
     (case get_shared_dependencies w path of
        Inl e \<Rightarrow> Inl e
      | Inr current_deps \<Rightarrow>
          deps_loop w sonames paths (deps \<union> {s \<in> current_deps. s \<notin> sonames}))"

text \<open>The paths \<open>fpath\<close> the two nested loops of the walk visit.\<close>

definition walked_paths :: "(string \<times> string list \<times> string list) list \<Rightarrow> string set" where
  "walked_paths triples = (\<Union>(root, dirs, files) \<in> set triples. os_path_join root ` set files)"

text \<open>The sets \<open>sonames\<close> and \<open>examine\<close> as the walk over \<open>path\<close> leaves them.\<close>

definition provided_sonames :: "world \<Rightarrow> bool \<Rightarrow> string \<Rightarrow> string set" where
  "provided_sonames w want32 path = fst (visit_walk w want32 (os_walk w path) ({}, {}))"

definition examine_set :: "world \<Rightarrow> bool \<Rightarrow> string \<Rightarrow> string set" where
  "examine_set w want32 path = snd (visit_walk w want32 (os_walk w path) ({}, {}))"

definition all_dependencies :: "world \<Rightarrow> bool \<Rightarrow> string \<Rightarrow> error + string set" where
  "all_dependencies w want32 path =
     (let sonames = provided_sonames w want32 path;
          examine = examine_set w want32 path
      in deps_loop w sonames (sorted_list_of_set examine) {})"

definition get_all_native_dependencies :: "world \<Rightarrow> string \<Rightarrow> error + string set" where
  "get_all_native_dependencies w path = all_dependencies w False path"

definition get_all_32bit_dependencies :: "world \<Rightarrow> string \<Rightarrow> error + string set" where
  "get_all_32bit_dependencies w path = all_dependencies w True path"


section \<open>The symbol pass\<close>

text \<open>
  A report is the dictionary \<open>abi_report\<close> of the script, a finite mapping. Its keys are
  what \<open>get_soname\<close> returns, a string or \<open>None\<close>.
\<close>

type_synonym abi_report = "(string option, string set) mapping"

fun collect_listing :: "world \<Rightarrow> string \<Rightarrow> string list \<Rightarrow> string set \<Rightarrow> string set" where
  "collect_listing w dirn [] collected_files = collected_files"
| "collect_listing w dirn (file # files) collected_files =
     (let f = basename file;
          clean_path = abspath w (os_path_join dirn f)
      in if \<not> is_file_valid w clean_path then collect_listing w dirn files collected_files
         else collect_listing w dirn files (insert clean_path collected_files))"

text \<open>
  \<^verbatim>\<open>if check_path[0] == '/': check_path = check_path[1:]\<close>; every entry of \<open>valid_dirs\<close> is
  non-empty, so \<^verbatim>\<open>check_path[0]\<close> is defined.
\<close>

definition strip_slash :: "string \<Rightarrow> string" where
  "strip_slash check_path =
     (case check_path of [] \<Rightarrow> [] | c # cs \<Rightarrow> if c = CHR ''/'' then cs else check_path)"

fun collect_dirs :: "world \<Rightarrow> string \<Rightarrow> string list \<Rightarrow> string set \<Rightarrow> string set" where
  "collect_dirs w source_dir [] collected_files = collected_files"
| "collect_dirs w source_dir (check_path # check_paths) collected_files =
     (let check_path' = strip_slash check_path;
          dirn = os_path_join source_dir check_path'
      in if \<not> path_isdir w dirn then collect_dirs w source_dir check_paths collected_files
         else collect_dirs w source_dir check_paths
                (collect_listing w dirn (listdir w dirn) collected_files))"

definition collect_files :: "world \<Rightarrow> string \<Rightarrow> string set" where
  "collect_files w source_dir = collect_dirs w source_dir valid_dirs {}"

text \<open>\<^verbatim>\<open>if soname not in tgt: tgt[soname] = set()\<close> and then \<^verbatim>\<open>tgt[soname].update(symbols)\<close>.\<close>

definition merge_entry :: "abi_report \<Rightarrow> string option \<Rightarrow> string set \<Rightarrow> abi_report" where
  "merge_entry tgt soname symbols =
     (case Mapping.lookup tgt soname of
        None \<Rightarrow> Mapping.update soname ({} \<union> symbols) tgt
      | Some old \<Rightarrow> Mapping.update soname (old \<union> symbols) tgt)"

text \<open>
  One turn of \<^verbatim>\<open>for library in sorted(collected_files)\<close>, on the pair of \<open>abi_report\<close> and
  \<open>abi_report32\<close>. A missing soname is printed by \<open>print_fatal\<close>; the \<^verbatim>\<open>sys.exit(1)\<close> after it
  is commented out.
\<close>

definition scan_library :: "world \<Rightarrow> string \<Rightarrow> abi_report \<times> abi_report
    \<Rightarrow> error + (abi_report \<times> abi_report)" where
  "scan_library w library reports =
     (case reports of (abi_report, abi_report32) \<Rightarrow>
        let soname = get_soname w library in
        (case (if soname = None
               then print_fatal ''Failed to determine soname of valid library!'' else None) of
           Some e \<Rightarrow> Inl e
         | None \<Rightarrow>
            (case dump_symbols w library of
               Inl e \<Rightarrow> Inl e
             | Inr symbols \<Rightarrow>
                 if symbols \<noteq> {} then
                   (if \<not> is_32bit w library
                    then Inr (merge_entry abi_report soname symbols, abi_report32)
                    else Inr (abi_report, merge_entry abi_report32 soname symbols))
                 else Inr (abi_report, abi_report32))))"

fun scan_libraries :: "world \<Rightarrow> string list \<Rightarrow> abi_report \<times> abi_report
    \<Rightarrow> error + (abi_report \<times> abi_report)" where
  "scan_libraries w [] reports = Inr reports"
| "scan_libraries w (library # libraries) reports =
     (case scan_library w library reports of
        Inl e \<Rightarrow> Inl e
      | Inr reports' \<Rightarrow> scan_libraries w libraries reports')"


section \<open>Writing the reports\<close>

text \<open>
  \<open>truncate_file\<close> returns at once when the path does not exist; otherwise it opens the file
  with \<^verbatim>\<open>"r+"\<close> and truncates it at position 0.
\<close>

definition truncate_file :: "store \<Rightarrow> string \<Rightarrow> store" where
  "truncate_file fs path = (if fs path = None then fs else fs(path \<mapsto> []))"

text \<open>\<^verbatim>\<open>"{}".format(soname)\<close> prints the key \<open>None\<close> as the text \<^verbatim>\<open>None\<close>.\<close>

fun format_key :: "string option \<Rightarrow> string" where
  "format_key None = ''None''"
| "format_key (Some soname) = soname"

text \<open>
  \<^verbatim>\<open>sorted(abi_report.keys())\<close>: strings are compared by character code; comparing \<open>None\<close>
  with a string raises TypeError, which any sort of two or more keys, one of them \<open>None\<close>,
  has to do. A dictionary has the key \<open>None\<close> at most once.
\<close>

definition sorted_keys :: "string option set \<Rightarrow> error + string option list" where
  "sorted_keys ks =
     (if None \<in> ks then (if ks = {None} then Inr [None] else Inl (Uncaught TypeError))
      else Inr (map Some (sorted_list_of_set (the ` ks))))"

definition entry_lines :: "string option \<Rightarrow> string set \<Rightarrow> string" where
  "entry_lines soname symbols =
     concat (map (\<lambda>symbol. format_key soname @ '':'' @ symbol @ [CHR 0x0A])
               (sorted_list_of_set symbols))"

definition report_text :: "abi_report \<Rightarrow> string option list \<Rightarrow> string" where
  "report_text report keys =
     concat (map (\<lambda>soname. case Mapping.lookup report soname of
                              None \<Rightarrow> []
                            | Some symbols \<Rightarrow> entry_lines soname symbols) keys)"

text \<open>
  One symbol report: \<^verbatim>\<open>open(report_file, "w")\<close> creates or empties the file before the keys
  are sorted, so a TypeError of the sort leaves it empty.
\<close>

definition write_abi_report :: "store \<Rightarrow> string \<Rightarrow> abi_report \<Rightarrow> error option \<times> store" where
  "write_abi_report fs report_file report =
     (if Mapping.keys report \<noteq> {} then
        (case sorted_keys (Mapping.keys report) of
           Inl e \<Rightarrow> (Some e, fs(report_file \<mapsto> []))
         | Inr keys \<Rightarrow> (None, fs(report_file \<mapsto> report_text report keys)))
      else (None, truncate_file fs report_file))"

definition deps_text :: "string set \<Rightarrow> string" where
  "deps_text lib_deps =
     concat (map (\<lambda>soname. soname @ [CHR 0x0A]) (sorted_list_of_set lib_deps))"

definition write_deps :: "store \<Rightarrow> string \<Rightarrow> string set \<Rightarrow> store" where
  "write_deps fs report_file lib_deps =
     (if lib_deps \<noteq> {} then fs(report_file \<mapsto> deps_text lib_deps)
      else truncate_file fs report_file)"

text \<open>
  The Write step of \<open>examine_abi\<close>, from \<^verbatim>\<open>report_file = ...\<close> to the last
  \<^verbatim>\<open>truncate_file(report_file32)\<close>: the two symbol reports, then the dependency pass over
  \<open>source_dir\<close>, then the two dependency reports.
\<close>

definition write_reports :: "world \<Rightarrow> store \<Rightarrow> string \<Rightarrow> string \<Rightarrow> abi_report \<times> abi_report
    \<Rightarrow> error option \<times> store" where
  "write_reports w fs download_path source_dir reports =
     (case reports of (abi_report, abi_report32) \<Rightarrow>
       (case write_abi_report fs (os_path_join download_path ''abi_symbols'') abi_report of
          (Some e, fs1) \<Rightarrow> (Some e, fs1)
        | (None, fs1) \<Rightarrow>
       (case write_abi_report fs1 (os_path_join download_path ''abi_symbols32'') abi_report32 of
          (Some e, fs2) \<Rightarrow> (Some e, fs2)
        | (None, fs2) \<Rightarrow>
       (case get_all_native_dependencies w source_dir of
          Inl e \<Rightarrow> (Some e, fs2)
        | Inr lib_deps \<Rightarrow>
       (case get_all_32bit_dependencies w source_dir of
          Inl e \<Rightarrow> (Some e, fs2)
        | Inr lib_deps32 \<Rightarrow>
            let fs3 = write_deps fs2 (os_path_join download_path ''abi_used_libs'') lib_deps;
                fs4 = write_deps fs3 (os_path_join download_path ''abi_used_libs32'') lib_deps32
            in (None, fs4))))))"


section \<open>One run\<close>

text \<open>\<open>purge_tree\<close>; \<open>util.print_fatal\<close> is followed by \<^verbatim>\<open>sys.exit(1)\<close> here.\<close>

definition purge_tree :: "world \<Rightarrow> string \<Rightarrow> error option" where
  "purge_tree w tree =
     (if \<not> path_exists w tree then None
      else if rmtree_ok w tree then None
      else Some (SysExit 1))"

text \<open>
  The steps of \<open>examine_abi\<close> before the scan: they end the run or give the absolute
  \<open>download_path\<close>, \<open>extract_dir\<close> and \<open>source_dir\<close>. A package that fails to unpack is printed by
  \<open>print_fatal\<close> and the run goes on; \<^verbatim>\<open>os.chdir\<close> has no handler.
\<close>

definition prepare :: "world \<Rightarrow> string \<Rightarrow> error + (string \<times> string \<times> string)" where
  "prepare w download_path0 =
     (let download_path = abspath w download_path0 in
      if \<not> path_exists w download_path then Inl (SysExit 1)
      else
        let eopkgs = basename ` {item \<in> set (listdir w download_path). ends_with ''.eopkg'' item} in
        if eopkgs = {} then Inl (SysExit 1)
        else
          let extract_dir = abspath w (os_path_join download_path ''__extraction'') in
          (case purge_tree w extract_dir of
             Some e \<Rightarrow> Inl e
           | None \<Rightarrow>
               if \<not> makedirs_ok w extract_dir then Inl (SysExit 1)
               else if \<not> chdir_ok w extract_dir then Inl (Uncaught FileNotFoundError)
               else
                 (case (if \<exists>eopkg \<in> eopkgs. \<not> unpack_ok w (os_path_join download_path eopkg)
                        then print_fatal ''Error extracting eopkgs'' else None) of
                    Some e \<Rightarrow> Inl e
                  | None \<Rightarrow>
                      let source_dir = os_path_join extract_dir ''install'' in
                      if \<not> chdir_ok w source_dir then Inl (Uncaught FileNotFoundError)
                      else Inr (download_path, extract_dir, source_dir))))"

text \<open>
  The run: the outcome (\<open>None\<close> for a normal end, exit status 0) and the store it leaves.
  At the end the extraction tree exists, so the last \<open>purge_tree\<close> removes it or exits.
\<close>

definition examine_abi :: "world \<Rightarrow> store \<Rightarrow> string \<Rightarrow> error option \<times> store" where
  "examine_abi w fs download_path0 =
     (case prepare w download_path0 of
        Inl e \<Rightarrow> (Some e, fs)
      | Inr (download_path, extract_dir, source_dir) \<Rightarrow>
          (case scan_libraries w (sorted_list_of_set (collect_files w source_dir))
                  (Mapping.empty, Mapping.empty) of
             Inl e \<Rightarrow> (Some e, fs)
           | Inr reports \<Rightarrow>
               (case write_reports w fs download_path source_dir reports of
                  (Some e, fs') \<Rightarrow> (Some e, fs')
                | (None, fs') \<Rightarrow>
                    if cleanup_ok w extract_dir
                    then (None, fs') else (Some (SysExit 1), fs'))))"


section \<open>Example trees\<close>

text \<open>
  A world in which nothing exists and every command prints nothing, and a table of command
  outputs to put into it.
\<close>

definition quiet_world :: world where
  "quiet_world =
     \<lparr> subprocess_getoutput = (\<lambda>cmd. Inr []), path_exists = (\<lambda>p. False),
       path_isfile = (\<lambda>p. False), path_islink = (\<lambda>p. False), path_isdir = (\<lambda>p. False),
       listdir = (\<lambda>d. []), os_walk = (\<lambda>d. []), abspath = (\<lambda>p. p),
       rmtree_ok = (\<lambda>p. True), makedirs_ok = (\<lambda>p. True), chdir_ok = (\<lambda>p. True),
       unpack_ok = (\<lambda>p. True), cleanup_ok = (\<lambda>p. True) \<rparr>"

definition tool_outputs :: "(string \<times> (py_exn + string)) list \<Rightarrow> string \<Rightarrow> py_exn + string" where
  "tool_outputs table cmd = (case map_of table cmd of None \<Rightarrow> Inr [] | Some r \<Rightarrow> r)"

text \<open>
  The target directory \<^verbatim>\<open>/t\<close> holds one package. Unpacked, it has two 64-bit libraries in
  \<^verbatim>\<open>usr/lib\<close>, both with the soname \<^verbatim>\<open>libfoo.so.1\<close>, and a 64-bit executable in \<^verbatim>\<open>usr/bin\<close>
  that needs \<^verbatim>\<open>libfoo.so.1\<close> and \<^verbatim>\<open>libc.so.6\<close>.
\<close>

definition demo_src :: string where
  "demo_src = ''/t/__extraction/install''"

definition liba :: string where
  "liba = demo_src @ ''/usr/lib/liba.so''"

definition libb :: string where
  "libb = demo_src @ ''/usr/lib/libb.so''"

definition tool :: string where
  "tool = demo_src @ ''/usr/bin/tool''"

definition elf64_so :: string where
  "elf64_so = ''f: ELF 64-bit LSB shared object, x86-64''"

definition elf64_exe :: string where
  "elf64_exe = ''f: ELF 64-bit LSB executable, x86-64''"

definition nm_liba :: string where
  "nm_liba = ''0000 T foo'' @ [CHR 0x0A] @ ''0008 A bar'' @ [CHR 0x0A] @ ''0010 T _init''"

definition nm_libb :: string where
  "nm_libb = ''0000 T baz'' @ [CHR 0x0A] @ ''0008 T foo'' @ [CHR 0x0A] @ ''nm: warning''
             @ [CHR 0x0A] @ ''0010 W weak''"

definition demo_table :: "(string \<times> (py_exn + string)) list" where
  "demo_table =
    [(file_cmd liba, Inr elf64_so),
     (file_cmd libb, Inr elf64_so),
     (file_cmd tool, Inr elf64_exe),
     (objdump_cmd liba, Inr ''  SONAME               libfoo.so.1''),
     (objdump_cmd libb, Inr ''  SONAME               libfoo.so.1''),
     (nm_cmd liba, Inr nm_liba),
     (nm_cmd libb, Inr nm_libb),
     (readelf_cmd tool,
        Inr ('' 0x1 (NEEDED) Shared library: [libfoo.so.1]'' @ [CHR 0x0A]
             @ '' 0x1 (NEEDED) Shared library: [libc.so.6]'')),
     (readelf_cmd liba, Inr '' 0x1 (NEEDED) Shared library: [libc.so.6]'')]"

definition demo_world :: world where
  "demo_world = quiet_world
     \<lparr> subprocess_getoutput := tool_outputs demo_table,
       path_exists := (\<lambda>p. p \<in> set [''/t'', liba, libb, tool]),
       path_isfile := (\<lambda>p. p \<in> set [liba, libb, tool]),
       path_isdir := (\<lambda>p. p = demo_src @ ''/usr/lib''),
       listdir := (\<lambda>d. if d = ''/t'' then [''a.eopkg'', ''notes.txt'']
                        else if d = demo_src @ ''/usr/lib'' then [''libb.so'', ''liba.so'']
                        else []),
       os_walk := (\<lambda>d. if d = demo_src
                        then [(demo_src, [''usr''], []),
                              (demo_src @ ''/usr'', [''bin'', ''lib''], []),
                              (demo_src @ ''/usr/bin'', [], [''tool'']),
                              (demo_src @ ''/usr/lib'', [], [''libb.so'', ''liba.so''])]
                        else []) \<rparr>"

text \<open>The same tree with every directory listed in another order.\<close>

definition demo_listdir' :: "string \<Rightarrow> string list" where
  "demo_listdir' d = rev (listdir demo_world d)"

definition demo_walk' :: "string \<Rightarrow> (string \<times> string list \<times> string list) list" where
  "demo_walk' d = rev (map (\<lambda>(root, dirs, files). (root, rev dirs, rev files)) (os_walk demo_world d))"

text \<open>The executable carries a soname of its own, which \<^verbatim>\<open>liba.so\<close> needs.\<close>

definition exe_soname_world :: world where
  "exe_soname_world = demo_world
     \<lparr> subprocess_getoutput := tool_outputs
         ((objdump_cmd tool, Inr ''  SONAME               libtool.so'')
          # (readelf_cmd liba, Inr '' 0x1 (NEEDED) Shared library: [libtool.so]'')
          # demo_table) \<rparr>"

text \<open>
  The tree has one more entry in \<^verbatim>\<open>usr/lib\<close>, which exists and is no link but is not a
  regular file, and for which \<^verbatim>\<open>file\<close> prints the descriptor of a shared object. It has the
  soname \<^verbatim>\<open>libdev.so\<close>, which the executable needs.
\<close>

definition libdev :: string where
  "libdev = demo_src @ ''/usr/lib/libdev''"

definition device_world :: world where
  "device_world = demo_world
     \<lparr> subprocess_getoutput := tool_outputs
         ((file_cmd libdev, Inr elf64_so)
          # (objdump_cmd libdev, Inr ''  SONAME               libdev.so'')
          # (readelf_cmd tool, Inr '' 0x1 (NEEDED) Shared library: [libdev.so]'')
          # demo_table),
       path_exists := (\<lambda>p. p \<in> set [''/t'', liba, libb, tool, libdev]),
       os_walk := (\<lambda>d. if d = demo_src
                        then [(demo_src @ ''/usr/bin'', [], [''tool'']),
                              (demo_src @ ''/usr/lib'', [], [''libb.so'', ''liba.so'', ''libdev''])]
                        else []) \<rparr>"

text \<open>
  \<^verbatim>\<open>nm\<close> is not installed: for either library the shell prints its error text, and
  \<^verbatim>\<open>subprocess.getoutput\<close> returns that text.
\<close>

definition nm_missing_world :: world where
  "nm_missing_world = demo_world
     \<lparr> subprocess_getoutput := tool_outputs
         ((nm_cmd liba, Inr ''/bin/sh: 1: nm: not found'')
          # (nm_cmd libb, Inr ''/bin/sh: 1: nm: not found'')
          # demo_table) \<rparr>"

text \<open>\<^verbatim>\<open>libb.so\<close> has no soname: \<^verbatim>\<open>grep\<close> prints nothing.\<close>

definition no_soname_world :: world where
  "no_soname_world = demo_world
     \<lparr> subprocess_getoutput := tool_outputs ((objdump_cmd libb, Inr []) # demo_table) \<rparr>"

text \<open>
  The call of \<^verbatim>\<open>nm\<close> on \<^verbatim>\<open>liba.so\<close> raises, and so does the call of \<^verbatim>\<open>objdump\<close> on
  \<^verbatim>\<open>libb.so\<close>. In another world the call of \<^verbatim>\<open>readelf\<close> on the executable raises.
\<close>

definition nm_fails_world :: world where
  "nm_fails_world = demo_world
     \<lparr> subprocess_getoutput := tool_outputs
         ((nm_cmd liba, Inl OSError) # (objdump_cmd libb, Inl OSError) # demo_table) \<rparr>"

definition readelf_fails_world :: world where
  "readelf_fails_world = demo_world
     \<lparr> subprocess_getoutput := tool_outputs
         ((readelf_cmd tool, Inl UnicodeDecodeError) # demo_table) \<rparr>"

text \<open>\<^verbatim>\<open>liba.so\<close> is a symbolic link whose descriptor is that of a shared object.\<close>

definition symlink_world :: world where
  "symlink_world = demo_world \<lparr> path_islink := (\<lambda>p. p = liba) \<rparr>"


text \<open>The call of \<^verbatim>\<open>file\<close>, or of \<^verbatim>\<open>objdump\<close>, on \<^verbatim>\<open>liba.so\<close> raises.\<close>

definition file_fails_world :: world where
  "file_fails_world = demo_world
     \<lparr> subprocess_getoutput := tool_outputs ((file_cmd liba, Inl OSError) # demo_table) \<rparr>"

definition objdump_fails_world :: world where
  "objdump_fails_world = demo_world
     \<lparr> subprocess_getoutput := tool_outputs ((objdump_cmd liba, Inl OSError) # demo_table) \<rparr>"

section \<open>The loops as sets\<close>

subsection \<open>The walk of the dependency pass\<close>

lemma visit_file_eq:
  "visit_file w b fpath (S, E) =
     (S \<union> {s. is_dynamic_binary w fpath \<and> is_32bit w fpath = b \<and> is_file_valid w fpath
               \<and> get_soname w fpath = Some s},
      E \<union> {p. p = fpath \<and> is_dynamic_binary w fpath \<and> is_32bit w fpath = b})"
  by (auto simp: visit_file_def Let_def split: option.splits)

lemma visit_files_eq:
  "visit_files w b root files (S, E) =
     (S \<union> {s. \<exists>fpath \<in> os_path_join root ` set files. is_dynamic_binary w fpath
               \<and> is_32bit w fpath = b \<and> is_file_valid w fpath \<and> get_soname w fpath = Some s},
      E \<union> {fpath \<in> os_path_join root ` set files. is_dynamic_binary w fpath
               \<and> is_32bit w fpath = b})"
proof (induction files arbitrary: S E)
  case Nil
  show ?case by simp
next
  case (Cons f files)
  show ?case
    unfolding visit_files.simps visit_file_eq Cons.IH by auto
qed

lemma visit_walk_eq:
  "visit_walk w b triples (S, E) =
     (S \<union> {s. \<exists>fpath \<in> walked_paths triples. is_dynamic_binary w fpath
               \<and> is_32bit w fpath = b \<and> is_file_valid w fpath \<and> get_soname w fpath = Some s},
      E \<union> {fpath \<in> walked_paths triples. is_dynamic_binary w fpath \<and> is_32bit w fpath = b})"
proof (induction triples arbitrary: S E)
  case Nil
  show ?case by (simp add: walked_paths_def)
next
  case (Cons t triples)
  obtain root dirs files where t: "t = (root, dirs, files)" by (cases t)
  have wp: "walked_paths (t # triples) = os_path_join root ` set files \<union> walked_paths triples"
    by (simp add: walked_paths_def t)
  show ?case
    unfolding t visit_walk.simps visit_files_eq Cons.IH wp[unfolded t] by auto
qed

lemma finite_walked_paths: "finite (walked_paths triples)"
  by (auto simp: walked_paths_def)

lemma provided_sonames_eq:
  "provided_sonames w b path =
     {s. \<exists>fpath \<in> walked_paths (os_walk w path). is_dynamic_binary w fpath
          \<and> is_32bit w fpath = b \<and> is_file_valid w fpath \<and> get_soname w fpath = Some s}"
  by (simp add: provided_sonames_def visit_walk_eq)

lemma examine_set_eq:
  "examine_set w b path =
     {fpath \<in> walked_paths (os_walk w path). is_dynamic_binary w fpath \<and> is_32bit w fpath = b}"
  by (simp add: examine_set_def visit_walk_eq)

lemma finite_examine_set: "finite (examine_set w b path)"
  by (simp add: examine_set_eq finite_walked_paths)

lemma deps_loop_eq:
  "deps_loop w sonames paths deps =
     (if \<forall>p \<in> set paths. \<exists>c. get_shared_dependencies w p = Inr c
      then Inr (deps \<union> ({s. \<exists>p \<in> set paths. \<exists>c. get_shared_dependencies w p = Inr c \<and> s \<in> c}
                          - sonames))
      else Inl (Uncaught AttributeError))"
proof (induction paths arbitrary: deps)
  case Nil
  show ?case by simp
next
  case (Cons p paths)
  show ?case
  proof (cases "get_shared_dependencies w p")
    case (Inl e)
    then have "e = Uncaught AttributeError"
      by (auto simp: get_shared_dependencies_def split: option.splits)
    with Inl show ?thesis by auto
  next
    case (Inr c)
    then show ?thesis
      unfolding deps_loop.simps Cons.IH by auto
  qed
qed

lemma all_dependencies_eq:
  "all_dependencies w b path =
     (if \<forall>p \<in> examine_set w b path. \<exists>c. get_shared_dependencies w p = Inr c
      then Inr ({s. \<exists>p \<in> examine_set w b path. \<exists>c. get_shared_dependencies w p = Inr c \<and> s \<in> c}
                 - provided_sonames w b path)
      else Inl (Uncaught AttributeError))"
  by (simp add: all_dependencies_def Let_def deps_loop_eq finite_examine_set)

subsection \<open>The collection of libraries\<close>

lemma collect_listing_eq:
  "collect_listing w dirn files C =
     C \<union> {p. \<exists>f \<in> set files. p = abspath w (os_path_join dirn (basename f)) \<and> is_file_valid w p}"
proof (induction files arbitrary: C)
  case Nil
  show ?case by simp
next
  case (Cons f files)
  show ?case
    unfolding collect_listing.simps Let_def Cons.IH by auto
qed

lemma collect_dirs_eq:
  "collect_dirs w source_dir check_paths C =
     C \<union> {p. \<exists>check_path \<in> set check_paths.
              path_isdir w (os_path_join source_dir (strip_slash check_path)) \<and>
              (\<exists>f \<in> set (listdir w (os_path_join source_dir (strip_slash check_path))).
                 p = abspath w (os_path_join (os_path_join source_dir (strip_slash check_path))
                                   (basename f)) \<and> is_file_valid w p)}"
proof (induction check_paths arbitrary: C)
  case Nil
  show ?case by simp
next
  case (Cons cp cps)
  show ?case
    unfolding collect_dirs.simps Let_def Cons.IH collect_listing_eq by auto
qed

lemma finite_collect_listing: "finite C \<Longrightarrow> finite (collect_listing w dirn files C)"
  by (induction files arbitrary: C) (auto simp: Let_def)

lemma finite_collect_dirs: "finite C \<Longrightarrow> finite (collect_dirs w source_dir check_paths C)"
  by (induction check_paths arbitrary: C) (auto simp: Let_def finite_collect_listing)

lemma finite_collect_files: "finite (collect_files w source_dir)"
  by (simp add: collect_files_def finite_collect_dirs)

lemma collected_is_valid: "p \<in> collect_files w source_dir \<Longrightarrow> is_file_valid w p"
  by (auto simp: collect_files_def collect_dirs_eq)

subsection \<open>The scan of the libraries\<close>

lemma print_fatal_None: "print_fatal msg = None"
  by (simp add: print_fatal_def)

lemma dump_symbols_error:
  "dump_symbols w l = Inl e \<Longrightarrow> e = Uncaught AttributeError"
  by (auto simp: dump_symbols_def split: option.splits)

lemma lookup_merge_entry:
  "Mapping.lookup (merge_entry tgt k syms) k' =
     (if k' = k then Some ((case Mapping.lookup tgt k of None \<Rightarrow> {} | Some old \<Rightarrow> old) \<union> syms)
      else Mapping.lookup tgt k')"
  by (auto simp: merge_entry_def Mapping.lookup_update' split: option.splits)

lemma scan_library_eq:
  "scan_library w l (r, r32) =
     (case dump_symbols w l of
        Inl e \<Rightarrow> Inl (Uncaught AttributeError)
      | Inr syms \<Rightarrow>
          Inr (if syms \<noteq> {} \<and> \<not> is_32bit w l then merge_entry r (get_soname w l) syms else r,
               if syms \<noteq> {} \<and> is_32bit w l then merge_entry r32 (get_soname w l) syms else r32))"
  by (auto simp: scan_library_def Let_def print_fatal_None split: sum.splits
           dest: dump_symbols_error)

lemma scan_libraries_error:
  "scan_libraries w libs rs = Inl e \<Longrightarrow> e = Uncaught AttributeError"
proof (induction libs arbitrary: rs)
  case Nil
  then show ?case by simp
next
  case (Cons l libs)
  obtain r r32 where rs: "rs = (r, r32)" by (cases rs)
  from Cons show ?case
    unfolding rs scan_libraries.simps scan_library_eq
    by (auto split: sum.splits)
qed

lemma scan_libraries_fails:
  "l \<in> set libs \<Longrightarrow> dump_symbols w l = Inl e \<Longrightarrow>
     scan_libraries w libs rs = Inl (Uncaught AttributeError)"
proof (induction libs arbitrary: rs)
  case Nil
  then show ?case by simp
next
  case (Cons a libs)
  obtain r r32 where rs: "rs = (r, r32)" by (cases rs)
  from Cons show ?case
    unfolding rs scan_libraries.simps scan_library_eq
    by (auto split: sum.splits)
qed

lemma scan_libraries_returns:
  "\<forall>l \<in> set libs. \<exists>syms. dump_symbols w l = Inr syms \<Longrightarrow>
     \<exists>rs'. scan_libraries w libs rs = Inr rs'"
proof (induction libs arbitrary: rs)
  case Nil
  then show ?case by simp
next
  case (Cons a libs)
  obtain r r32 where rs: "rs = (r, r32)" by (cases rs)
  from Cons.prems obtain syms where a: "dump_symbols w a = Inr syms" by auto
  from Cons.prems have rest: "\<forall>l \<in> set libs. \<exists>syms. dump_symbols w l = Inr syms" by simp
  show ?case
    unfolding rs scan_libraries.simps scan_library_eq a
    using Cons.IH[OF rest] by simp
qed


subsection \<open>Strings and patterns\<close>

lemma starts_with_append:
  "starts_with (p @ q) s \<longleftrightarrow> starts_with p s \<and> starts_with q (drop (length p) s)"
proof (induction p arbitrary: s)
  case Nil
  show ?case by (simp add: starts_with_def)
next
  case (Cons a p)
  show ?case
  proof (cases s)
    case Nil
    then show ?thesis by (simp add: starts_with_def)
  next
    case (Cons b t)
    with Cons.IH[of t] show ?thesis by (auto simp: starts_with_def)
  qed
qed

lemma first_some_None_iff: "first_some xs = None \<longleftrightarrow> (\<forall>x \<in> set xs. x = None)"
  by (induction xs rule: first_some.induct) auto

lemma str_contains_drop: "starts_with p (drop n s) \<Longrightarrow> str_contains p s"
proof (induction s arbitrary: n)
  case Nil
  then show ?case by (simp add: starts_with_def)
next
  case (Cons c cs)
  then show ?case by (cases n) auto
qed

lemma rx_match_dot_star_seq:
  "rx_match (Seq Dot_star r) s caps k \<noteq> None \<Longrightarrow> \<exists>n. rx_match r (drop n s) caps k \<noteq> None"
  by (auto simp: first_some_None_iff)

lemma reg_tail_accepts:
  assumes "rx_match (Seq (Lit '' ELF '') (Seq (Group (Alt (Lit ''64'') (Lit ''32'')))
             (Lit ''-bit LSB shared object,''))) t caps k \<noteq> None"
  shows "starts_with '' ELF 64-bit LSB shared object,'' t
         \<or> starts_with '' ELF 32-bit LSB shared object,'' t"
proof -
  have l64: "starts_with '' ELF 64-bit LSB shared object,'' t \<longleftrightarrow>
            starts_with '' ELF '' t \<and> starts_with ''64'' (drop (length '' ELF '') t)
              \<and> starts_with ''-bit LSB shared object,'' (drop (length ''64'') (drop (length '' ELF '') t))"
    using starts_with_append[of "'' ELF ''" "''64-bit LSB shared object,''" t]
          starts_with_append[of "''64''" "''-bit LSB shared object,''" "drop (length '' ELF '') t"]
    by simp
  have l32: "starts_with '' ELF 32-bit LSB shared object,'' t \<longleftrightarrow>
            starts_with '' ELF '' t \<and> starts_with ''32'' (drop (length '' ELF '') t)
              \<and> starts_with ''-bit LSB shared object,'' (drop (length ''32'') (drop (length '' ELF '') t))"
    using starts_with_append[of "'' ELF ''" "''32-bit LSB shared object,''" t]
          starts_with_append[of "''32''" "''-bit LSB shared object,''" "drop (length '' ELF '') t"]
    by simp
  from assms show ?thesis
    unfolding l64 l32 by (auto split: if_splits option.splits)
qed

lemma reg_match_contains:
  assumes "re_match reg mg \<noteq> None"
  shows "str_contains '' ELF 64-bit LSB shared object,'' mg
         \<or> str_contains '' ELF 32-bit LSB shared object,'' mg"
proof -
  from assms have "rx_match (Seq Dot_star (Seq (Lit '' ELF '')
       (Seq (Group (Alt (Lit ''64'') (Lit ''32''))) (Lit ''-bit LSB shared object,''))))
       mg [] (\<lambda>s' caps. Some caps) \<noteq> None"
    unfolding re_match_def reg_def .
  from rx_match_dot_star_seq[OF this] obtain n where
    "rx_match (Seq (Lit '' ELF '') (Seq (Group (Alt (Lit ''64'') (Lit ''32'')))
       (Lit ''-bit LSB shared object,''))) (drop n mg) [] (\<lambda>s' caps. Some caps) \<noteq> None" ..
  from reg_tail_accepts[OF this] show ?thesis
    using str_contains_drop by blast
qed

subsection \<open>Symbols of a library and entries of a report\<close>

lemma symbol_of_line_Some:
  "symbol_of_line line = Some sym_id \<longleftrightarrow>
     (\<exists>f0 sym_type. py_split (py_strip line) = [f0, sym_type, sym_id]
        \<and> sym_type \<in> set wanted_symbol_types \<and> sym_id \<notin> set ignored_symbols)"
  by (auto simp: symbol_of_line_def split: list.splits if_splits)

lemma symbols_of_lines_eq:
  "symbols_of_lines lines ret = ret \<union> {sym_id. \<exists>line \<in> set lines. symbol_of_line line = Some sym_id}"
proof (induction lines arbitrary: ret)
  case Nil
  show ?case by simp
next
  case (Cons l ls)
  show ?case
    unfolding symbols_of_lines.simps
    by (cases "symbol_of_line l") (auto simp: Cons.IH)
qed

lemma dump_symbols_eq:
  "dump_symbols w path =
     (case subprocess_getoutput w (nm_cmd path) of
        Inl exn \<Rightarrow> Inl (Uncaught AttributeError)
      | Inr out \<Rightarrow> Inr {sym_id. \<exists>line \<in> set (split_lines out). symbol_of_line line = Some sym_id})"
  by (simp add: dump_symbols_def get_output_def symbols_of_lines_eq split: sum.splits)

lemma scan_libraries_entries:
  assumes "scan_libraries w libs (r, r32) = Inr (r', r32')"
  shows "Mapping.lookup r' k =
           (if \<exists>l \<in> set libs. \<exists>syms. get_soname w l = k \<and> \<not> is_32bit w l
                  \<and> dump_symbols w l = Inr syms \<and> syms \<noteq> {}
            then Some ((case Mapping.lookup r k of None \<Rightarrow> {} | Some old \<Rightarrow> old)
                       \<union> \<Union>{syms. \<exists>l \<in> set libs. get_soname w l = k
                         \<and> \<not> is_32bit w l \<and> dump_symbols w l = Inr syms})
            else Mapping.lookup r k)"
    and "Mapping.lookup r32' k =
           (if \<exists>l \<in> set libs. \<exists>syms. get_soname w l = k \<and> is_32bit w l
                  \<and> dump_symbols w l = Inr syms \<and> syms \<noteq> {}
            then Some ((case Mapping.lookup r32 k of None \<Rightarrow> {} | Some old \<Rightarrow> old)
                       \<union> \<Union>{syms. \<exists>l \<in> set libs. get_soname w l = k
                         \<and> is_32bit w l \<and> dump_symbols w l = Inr syms})
            else Mapping.lookup r32 k)"
  using assms
proof (induction libs arbitrary: r r32)
  case Nil
  {
    case 1 then show ?case by simp
  next
    case 2 then show ?case by simp
  }
next
  case (Cons a libs)
  {
    case 1
    then obtain syms where a: "dump_symbols w a = Inr syms"
      by (auto simp: scan_library_eq split: sum.splits)
    let ?r1 = "if syms \<noteq> {} \<and> \<not> is_32bit w a then merge_entry r (get_soname w a) syms else r"
    let ?r2 = "if syms \<noteq> {} \<and> is_32bit w a then merge_entry r32 (get_soname w a) syms else r32"
    from 1 a have rest: "scan_libraries w libs (?r1, ?r2) = Inr (r', r32')"
      by (simp add: scan_library_eq)
    show ?case
      unfolding Cons.IH(1)[OF rest]
      using a by (auto simp: lookup_merge_entry split: option.splits)
  next
    case 2
    then obtain syms where a: "dump_symbols w a = Inr syms"
      by (auto simp: scan_library_eq split: sum.splits)
    let ?r1 = "if syms \<noteq> {} \<and> \<not> is_32bit w a then merge_entry r (get_soname w a) syms else r"
    let ?r2 = "if syms \<noteq> {} \<and> is_32bit w a then merge_entry r32 (get_soname w a) syms else r32"
    from 2 a have rest: "scan_libraries w libs (?r1, ?r2) = Inr (r', r32')"
      by (simp add: scan_library_eq)
    show ?case
      unfolding Cons.IH(2)[OF rest]
      using a by (auto simp: lookup_merge_entry split: option.splits)
  }
qed

text \<open>From the empty reports: the entry of a key is the union over the libraries with that
  soname and bit-width, and the key is present exactly when that union is not empty.\<close>

lemma scan_libraries_from_empty:
  assumes "scan_libraries w libs (Mapping.empty, Mapping.empty) = Inr (r', r32')"
  shows "Mapping.lookup (if b then r32' else r') k =
           (if \<Union>{syms. \<exists>l \<in> set libs. get_soname w l = k \<and> is_32bit w l = b
                     \<and> dump_symbols w l = Inr syms} = {}
            then None
            else Some (\<Union>{syms. \<exists>l \<in> set libs. get_soname w l = k \<and> is_32bit w l = b
                     \<and> dump_symbols w l = Inr syms}))"
proof (cases b)
  case True
  then show ?thesis
    using scan_libraries_entries(2)[OF assms, of k]
    by (auto simp: Mapping.lookup_empty split: if_splits)
next
  case False
  then show ?thesis
    using scan_libraries_entries(1)[OF assms, of k]
    by (auto simp: Mapping.lookup_empty split: if_splits)
qed

lemma first_some_map_mono:
  assumes "\<And>x. x \<in> set xs \<Longrightarrow> f x \<noteq> None \<Longrightarrow> g x \<noteq> None"
      and "first_some (map f xs) \<noteq> None"
  shows "first_some (map g xs) \<noteq> None"
  using assms unfolding first_some_None_iff by fastforce

lemma reg_implies_valid_dyn:
  assumes "re_match reg mg \<noteq> None"
  shows "re_match valid_dyn mg \<noteq> None"
proof -
  have so: "starts_with ''-bit LSB shared object,'' t \<longleftrightarrow>
            starts_with ''-bit LSB '' t \<and> starts_with ''shared object'' (drop (length ''-bit LSB '') t)
              \<and> starts_with '','' (drop (length ''shared object'') (drop (length ''-bit LSB '') t))" for t
    using starts_with_append[of "''-bit LSB ''" "''shared object,''" t]
          starts_with_append[of "''shared object''" "'',''" "drop (length ''-bit LSB '') t"]
    by simp
  show ?thesis
    using assms
    unfolding re_match_def reg_def valid_dyn_def rx_match.simps
    by (rule first_some_map_mono[rotated]) (auto simp: so split: if_splits option.splits)
qed

lemma valid_regular_is_dynamic:
  "is_file_valid w p \<Longrightarrow> path_isfile w p \<Longrightarrow> is_dynamic_binary w p"
  using reg_implies_valid_dyn
  by (auto simp: is_file_valid_def is_dynamic_binary_def split: option.splits if_splits)

subsection \<open>The report files\<close>

lemma os_path_join_relative:
  "\<not> starts_with ''/'' b \<Longrightarrow>
     os_path_join a b = (if a = [] \<or> ends_with ''/'' a then a else a @ ''/'') @ b"
  by (simp add: os_path_join_def)

lemma report_paths_distinct:
  "distinct [os_path_join d ''abi_symbols'', os_path_join d ''abi_symbols32'',
             os_path_join d ''abi_used_libs'', os_path_join d ''abi_used_libs32'']"
proof -
  have "\<not> starts_with ''/'' ''abi_symbols''" "\<not> starts_with ''/'' ''abi_symbols32''"
       "\<not> starts_with ''/'' ''abi_used_libs''" "\<not> starts_with ''/'' ''abi_used_libs32''"
    by (simp_all add: starts_with_def)
  then show ?thesis
    by (simp add: os_path_join_relative)
qed

lemma write_abi_report_other:
  "q \<noteq> p \<Longrightarrow> snd (write_abi_report fs p r) q = fs q"
  by (simp add: write_abi_report_def truncate_file_def split: sum.splits)

lemma write_abi_report_empty:
  "Mapping.keys r = {} \<Longrightarrow>
     write_abi_report fs p r = (None, fs(p := (if fs p = None then None else Some [])))"
  by (auto simp: write_abi_report_def truncate_file_def)

lemma write_deps_other:
  "q \<noteq> p \<Longrightarrow> write_deps fs p d q = fs q"
  by (simp add: write_deps_def truncate_file_def)

lemma write_deps_empty:
  "write_deps fs p {} = fs(p := (if fs p = None then None else Some []))"
  by (auto simp: write_deps_def truncate_file_def)

lemma write_reports_done:
  assumes "write_reports w fs dp src (r, r32) = (None, fs')"
  shows "\<exists>fs1 fs2 d d32.
           write_abi_report fs (os_path_join dp ''abi_symbols'') r = (None, fs1)
         \<and> write_abi_report fs1 (os_path_join dp ''abi_symbols32'') r32 = (None, fs2)
         \<and> get_all_native_dependencies w src = Inr d
         \<and> get_all_32bit_dependencies w src = Inr d32
         \<and> fs' = write_deps (write_deps fs2 (os_path_join dp ''abi_used_libs'') d)
                    (os_path_join dp ''abi_used_libs32'') d32"
  using assms
  by (auto simp: write_reports_def Let_def split: prod.splits option.splits sum.splits)

subsection \<open>Keys and text of a report\<close>

lemma finite_symbols_of_lines: "finite ret \<Longrightarrow> finite (symbols_of_lines lines ret)"
  by (induction lines arbitrary: ret) (auto split: option.splits)

lemma finite_dump_symbols: "dump_symbols w path = Inr symbols \<Longrightarrow> finite symbols"
  by (auto simp: dump_symbols_def finite_symbols_of_lines split: option.splits)

lemma scan_libraries_keys:
  assumes "scan_libraries w libs (Mapping.empty, Mapping.empty) = Inr (r, r32)"
  shows "Mapping.keys (if b then r32 else r) \<subseteq> get_soname w ` set libs"
proof
  fix k
  assume "k \<in> Mapping.keys (if b then r32 else r)"
  then have "Mapping.lookup (if b then r32 else r) k \<noteq> None"
    by (simp add: Mapping.keys_dom_lookup domIff)
  then show "k \<in> get_soname w ` set libs"
    unfolding scan_libraries_from_empty[OF assms] by (auto split: if_splits)
qed

lemma report_text_entry:
  assumes "k \<in> set keys" and "Mapping.lookup report k = Some symbols"
  shows "\<exists>before after. report_text report keys = before @ entry_lines k symbols @ after"
proof -
  from assms(1) obtain xs ys where "keys = xs @ k # ys"
    by (auto dest: split_list)
  with assms(2) have "report_text report keys =
      report_text report xs @ entry_lines k symbols @ report_text report ys"
    by (simp add: report_text_def)
  then show ?thesis by blast
qed

lemma Some_the_image: "None \<notin> ks \<Longrightarrow> Some ` the ` ks = ks"
proof (intro set_eqI iffI)
  fix x
  assume n: "None \<notin> ks" and "x \<in> Some ` the ` ks"
  then obtain y where y: "y \<in> ks" and x: "x = Some (the y)" by auto
  from n y have "y \<noteq> None" by (cases y) simp_all
  with x y show "x \<in> ks" by auto
next
  fix x
  assume n: "None \<notin> ks" and x: "x \<in> ks"
  then have "x \<noteq> None" by (cases x) simp_all
  then have "x = Some (the x)" by simp
  with x show "x \<in> Some ` the ` ks" by blast
qed

lemma sorted_keys_set:
  assumes "finite ks" and "sorted_keys ks = Inr keys"
  shows "set keys = ks"
proof (cases "None \<in> ks")
  case True
  with assms(2) show ?thesis by (auto simp: sorted_keys_def split: if_splits)
next
  case False
  with assms(2) have "keys = map Some (sorted_list_of_set (the ` ks))"
    by (simp add: sorted_keys_def)
  with assms(1) have "set keys = Some ` the ` ks" by simp
  with False show ?thesis by (simp add: Some_the_image)
qed

subsection \<open>Listing order\<close>

text \<open>Nothing a run computes looks at the order of a listing, only at its entries.\<close>

lemma get_output_listing:
  "get_output (w\<lparr>listdir := a, os_walk := b\<rparr>) cmd = get_output w cmd"
  by (simp add: get_output_def)

lemma get_soname_listing:
  "get_soname (w\<lparr>listdir := a, os_walk := b\<rparr>) p = get_soname w p"
  by (simp add: get_soname_def get_output_listing)

lemma get_file_magic_listing:
  "get_file_magic (w\<lparr>listdir := a, os_walk := b\<rparr>) p = get_file_magic w p"
  by (simp add: get_file_magic_def get_output_listing)

lemma is_file_valid_listing:
  "is_file_valid (w\<lparr>listdir := a, os_walk := b\<rparr>) p = is_file_valid w p"
  by (simp add: is_file_valid_def get_file_magic_listing)

lemma is_dynamic_binary_listing:
  "is_dynamic_binary (w\<lparr>listdir := a, os_walk := b\<rparr>) p = is_dynamic_binary w p"
  by (simp add: is_dynamic_binary_def get_file_magic_listing)

lemma is_32bit_listing:
  "is_32bit (w\<lparr>listdir := a, os_walk := b\<rparr>) p = is_32bit w p"
  by (simp add: is_32bit_def get_file_magic_listing)

lemma dump_symbols_listing:
  "dump_symbols (w\<lparr>listdir := a, os_walk := b\<rparr>) p = dump_symbols w p"
  by (simp add: dump_symbols_def get_output_listing)

lemma get_shared_dependencies_listing:
  "get_shared_dependencies (w\<lparr>listdir := a, os_walk := b\<rparr>) p = get_shared_dependencies w p"
  by (simp add: get_shared_dependencies_def get_output_listing)

lemmas listing_simps = get_soname_listing is_file_valid_listing is_dynamic_binary_listing
  is_32bit_listing dump_symbols_listing get_shared_dependencies_listing

lemma scan_libraries_listing:
  "scan_libraries (w\<lparr>listdir := a, os_walk := b\<rparr>) libs rs = scan_libraries w libs rs"
proof (induction libs arbitrary: rs)
  case Nil
  show ?case by simp
next
  case (Cons l libs)
  obtain r r32 where rs: "rs = (r, r32)" by (cases rs)
  show ?case
    unfolding rs scan_libraries.simps scan_library_eq listing_simps Cons.IH ..
qed

lemma collect_files_listing:
  assumes "\<forall>d. set (a d) = set (listdir w d)"
  shows "collect_files (w\<lparr>listdir := a, os_walk := b\<rparr>) src = collect_files w src"
  using assms by (simp add: collect_files_def collect_dirs_eq is_file_valid_listing)

lemma examine_set_listing:
  assumes "\<forall>d. walked_paths (b d) = walked_paths (os_walk w d)"
  shows "examine_set (w\<lparr>listdir := a, os_walk := b\<rparr>) want32 path = examine_set w want32 path"
  unfolding examine_set_eq listing_simps using assms by simp

lemma provided_sonames_listing:
  assumes "\<forall>d. walked_paths (b d) = walked_paths (os_walk w d)"
  shows "provided_sonames (w\<lparr>listdir := a, os_walk := b\<rparr>) want32 path
         = provided_sonames w want32 path"
  unfolding provided_sonames_eq listing_simps using assms by simp

lemma all_dependencies_listing:
  assumes "\<forall>d. walked_paths (b d) = walked_paths (os_walk w d)"
  shows "all_dependencies (w\<lparr>listdir := a, os_walk := b\<rparr>) want32 path
         = all_dependencies w want32 path"
  unfolding all_dependencies_eq examine_set_listing[OF assms] provided_sonames_listing[OF assms]
    listing_simps ..

lemma fields_listing:
  "abspath (w\<lparr>listdir := a, os_walk := b\<rparr>) = abspath w"
  "path_exists (w\<lparr>listdir := a, os_walk := b\<rparr>) = path_exists w"
  "rmtree_ok (w\<lparr>listdir := a, os_walk := b\<rparr>) = rmtree_ok w"
  "makedirs_ok (w\<lparr>listdir := a, os_walk := b\<rparr>) = makedirs_ok w"
  "chdir_ok (w\<lparr>listdir := a, os_walk := b\<rparr>) = chdir_ok w"
  "unpack_ok (w\<lparr>listdir := a, os_walk := b\<rparr>) = unpack_ok w"
  "cleanup_ok (w\<lparr>listdir := a, os_walk := b\<rparr>) = cleanup_ok w"
  "listdir (w\<lparr>listdir := a, os_walk := b\<rparr>) = a"
  by simp_all

lemma prepare_listing:
  assumes "\<forall>d. set (a d) = set (listdir w d)"
  shows "prepare (w\<lparr>listdir := a, os_walk := b\<rparr>) dp = prepare w dp"
  unfolding prepare_def purge_tree_def fields_listing assms[rule_format] ..

lemma write_reports_listing:
  assumes "\<forall>d. walked_paths (b d) = walked_paths (os_walk w d)"
  shows "write_reports (w\<lparr>listdir := a, os_walk := b\<rparr>) fs dp src rs = write_reports w fs dp src rs"
  unfolding write_reports_def get_all_native_dependencies_def get_all_32bit_dependencies_def
    all_dependencies_listing[OF assms] ..

lemma examine_abi_listing:
  assumes "\<forall>d. set (a d) = set (listdir w d)"
      and "\<forall>d. walked_paths (b d) = walked_paths (os_walk w d)"
  shows "examine_abi (w\<lparr>listdir := a, os_walk := b\<rparr>) fs dp = examine_abi w fs dp"
  unfolding examine_abi_def prepare_listing[OF assms(1)] collect_files_listing[OF assms(1)]
    scan_libraries_listing write_reports_listing[OF assms(2)] fields_listing ..


subsection \<open>Writing twice\<close>

text \<open>Writing again what has been written changes nothing.\<close>

lemma write_abi_report_again:
  assumes "write_abi_report fs p r = (st, fs1)" and "fs' p = fs1 p"
  shows "write_abi_report fs' p r = (st, fs')"
  using assms
  by (auto simp: write_abi_report_def truncate_file_def fun_eq_iff
           split: sum.splits if_splits)

lemma write_deps_again:
  assumes "fs' p = write_deps fs p d p"
  shows "write_deps fs' p d = fs'"
  using assms
  by (auto simp: write_deps_def truncate_file_def fun_eq_iff split: if_splits)

lemma write_abi_report_elsewhere:
  "write_abi_report fs p r = (st, fs1) \<Longrightarrow> q \<noteq> p \<Longrightarrow> fs1 q = fs q"
  using write_abi_report_other[of q p fs r] by simp

lemma write_reports_idem:
  assumes "write_reports w fs dp src rs = (st, fs')"
  shows "write_reports w fs' dp src rs = (st, fs')"
proof -
  obtain r r32 where rs: "rs = (r, r32)" by (cases rs)
  let ?p1 = "os_path_join dp ''abi_symbols''"
  let ?p2 = "os_path_join dp ''abi_symbols32''"
  let ?p3 = "os_path_join dp ''abi_used_libs''"
  let ?p4 = "os_path_join dp ''abi_used_libs32''"
  from report_paths_distinct[of dp]
  have ne: "?p1 \<noteq> ?p2" "?p1 \<noteq> ?p3" "?p1 \<noteq> ?p4" "?p2 \<noteq> ?p3" "?p2 \<noteq> ?p4" "?p3 \<noteq> ?p4"
           "?p2 \<noteq> ?p1" "?p3 \<noteq> ?p1" "?p4 \<noteq> ?p1" "?p3 \<noteq> ?p2" "?p4 \<noteq> ?p2" "?p4 \<noteq> ?p3"
    by auto
  obtain st1 fs1 where w1: "write_abi_report fs ?p1 r = (st1, fs1)" by force
  obtain st2 fs2 where w2: "write_abi_report fs1 ?p2 r32 = (st2, fs2)" by force
  have f21: "fs2 ?p1 = fs1 ?p1"
    using write_abi_report_elsewhere[OF w2 ne(1)] .
  show ?thesis
  proof (cases st1)
    case (Some e)
    with assms w1 have "st = Some e" "fs' = fs1"
      by (simp_all add: rs write_reports_def)
    moreover from write_abi_report_again[OF w1, of fs1]
    have "write_abi_report fs1 ?p1 r = (st1, fs1)" by simp
    ultimately show ?thesis using Some
      by (simp add: rs write_reports_def)
  next
    case None
    note st1 = None
    show ?thesis
    proof (cases st2)
      case (Some e)
      with assms w1 w2 st1 have res: "st = Some e" "fs' = fs2"
        by (simp_all add: rs write_reports_def)
      from write_abi_report_again[OF w1, of fs2] f21
      have a: "write_abi_report fs2 ?p1 r = (st1, fs2)" by simp
      from write_abi_report_again[OF w2, of fs2]
      have b: "write_abi_report fs2 ?p2 r32 = (st2, fs2)" by simp
      from res a b st1 Some show ?thesis
        by (simp add: rs write_reports_def)
    next
      case None
      note st2 = None
      from write_abi_report_again[OF w1, of fs2] f21
      have a: "write_abi_report fs2 ?p1 r = (st1, fs2)" by simp
      from write_abi_report_again[OF w2, of fs2]
      have b: "write_abi_report fs2 ?p2 r32 = (st2, fs2)" by simp
      show ?thesis
      proof (cases "get_all_native_dependencies w src")
        case (Inl e)
        with assms w1 w2 st1 st2 have res: "st = Some e" "fs' = fs2"
          by (simp_all add: rs write_reports_def)
        from res a b st1 st2 Inl show ?thesis
          by (simp add: rs write_reports_def)
      next
        case (Inr d)
        note nat = Inr
        show ?thesis
        proof (cases "get_all_32bit_dependencies w src")
          case (Inl e)
          with assms w1 w2 st1 st2 nat have res: "st = Some e" "fs' = fs2"
            by (simp_all add: rs write_reports_def)
          from res a b st1 st2 nat Inl show ?thesis
            by (simp add: rs write_reports_def)
        next
          case (Inr d32)
          let ?fs3 = "write_deps fs2 ?p3 d"
          let ?fs4 = "write_deps ?fs3 ?p4 d32"
          from assms w1 w2 st1 st2 nat Inr have res: "st = None" "fs' = ?fs4"
            by (simp_all add: rs write_reports_def Let_def)
          have g1: "?fs4 ?p1 = fs1 ?p1"
            using ne f21 by (simp add: write_deps_other)
          have g2: "?fs4 ?p2 = fs2 ?p2"
            using ne by (simp add: write_deps_other)
          have g3: "?fs4 ?p3 = write_deps fs2 ?p3 d ?p3"
            using ne by (simp add: write_deps_other)
          from write_abi_report_again[OF w1, of ?fs4] g1
          have a4: "write_abi_report ?fs4 ?p1 r = (None, ?fs4)" using st1 by simp
          from write_abi_report_again[OF w2, of ?fs4] g2
          have b4: "write_abi_report ?fs4 ?p2 r32 = (None, ?fs4)" using st2 by simp
          from write_deps_again[of ?fs4 ?p3 fs2 d] g3
          have c4: "write_deps ?fs4 ?p3 d = ?fs4" by simp
          have d4: "write_deps ?fs4 ?p4 d32 = ?fs4"
            by (rule write_deps_again) (simp add: write_deps_def truncate_file_def)
          have "write_reports w ?fs4 dp src (r, r32) = (None, ?fs4)"
            unfolding write_reports_def
            by (simp only: prod.case a4 b4 nat Inr option.case sum.case Let_def c4 d4)
          with res show ?thesis by (simp add: rs)
        qed
      qed
    qed
  qed
qed

lemma examine_abi_idem:
  "examine_abi w (snd (examine_abi w fs dp)) dp = examine_abi w fs dp"
proof (cases "prepare w dp")
  case (Inl e)
  then show ?thesis by (simp add: examine_abi_def)
next
  case (Inr t)
  obtain download_path extract_dir source_dir
    where t: "t = (download_path, extract_dir, source_dir)" by (cases t)
  note prep = Inr[unfolded t]
  show ?thesis
  proof (cases "scan_libraries w (sorted_list_of_set (collect_files w source_dir))
                  (Mapping.empty, Mapping.empty)")
    case (Inl e)
    with prep show ?thesis by (simp add: examine_abi_def)
  next
    case (Inr reports)
    obtain st fs' where wr: "write_reports w fs download_path source_dir reports = (st, fs')"
      by force
    note again = write_reports_idem[OF wr]
    have run: "snd (examine_abi w fs dp) = fs'"
      using prep Inr wr by (cases st) (simp_all add: examine_abi_def)
    show ?thesis
      unfolding run using prep Inr wr again
      by (cases st) (simp_all add: examine_abi_def)
  qed
qed

lemma sorted_keys_strings:
  assumes "finite ks" and "ks \<noteq> {}" and "None \<notin> ks"
  shows "sorted_keys ks = Inr (map Some (sorted_list_of_set (the ` ks)))"
    and "Some ` set (sorted_list_of_set (the ` ks)) = ks"
  using assms by (simp_all add: sorted_keys_def Some_the_image)

section \<open>The properties\<close>

text \<open>
  C9. \<open>is_file_valid\<close> is false for every path that is a symbolic link, whatever the format
  descriptor of the path says, false for a path that does not exist, and false when
  \<open>get_file_magic\<close> gives nothing; when it is true, the descriptor matches the pattern \<open>reg\<close>,
  so it contains \<^verbatim>\<open> ELF 64-bit LSB shared object,\<close> or \<^verbatim>\<open> ELF 32-bit LSB shared object,\<close>.
\<close>

theorem is_file_valid_classification:
  "(path_islink w path \<longrightarrow> \<not> is_file_valid w path) \<and>
   (\<not> path_exists w path \<longrightarrow> \<not> is_file_valid w path) \<and>
   (get_file_magic w path = None \<longrightarrow> \<not> is_file_valid w path) \<and>
   (is_file_valid w path \<longrightarrow>
      (\<exists>mg. get_file_magic w path = Some mg \<and> re_match reg mg \<noteq> None \<and>
            (str_contains '' ELF 64-bit LSB shared object,'' mg
             \<or> str_contains '' ELF 32-bit LSB shared object,'' mg)))"
  using reg_match_contains
  by (auto simp: is_file_valid_def split: option.splits if_splits)

theorem is_file_valid_classification_witness:
  "path_islink symlink_world liba \<and> get_file_magic symlink_world liba = Some elf64_so
   \<and> re_match reg elf64_so \<noteq> None \<and> \<not> is_file_valid symlink_world liba
   \<and> \<not> path_exists demo_world ''/nowhere'' \<and> \<not> is_file_valid demo_world ''/nowhere''
   \<and> get_file_magic file_fails_world liba = None \<and> \<not> is_file_valid file_fails_world liba
   \<and> is_file_valid demo_world liba
   \<and> (\<exists>mg. get_file_magic demo_world liba = Some mg \<and> re_match reg mg \<noteq> None)"
proof -
  have h1: "path_islink symlink_world liba" by code_simp
  have m1: "get_file_magic symlink_world liba = Some elf64_so" by code_simp
  have r1: "re_match reg elf64_so \<noteq> None" by code_simp
  have h2: "\<not> path_exists demo_world ''/nowhere''" by code_simp
  have h3: "get_file_magic file_fails_world liba = None" by code_simp
  have h4: "is_file_valid demo_world liba" by code_simp
  show ?thesis
    using h1 m1 r1 h2 h3 h4
      is_file_valid_classification[of symlink_world liba]
      is_file_valid_classification[of demo_world "''/nowhere''"]
      is_file_valid_classification[of file_fails_world liba]
      is_file_valid_classification[of demo_world liba]
    by blast
qed

text \<open>
  C8. When \<^verbatim>\<open>nm\<close> has printed \<open>out\<close> for a library, \<open>dump_symbols\<close> returns exactly the names
  \<open>sym_id\<close> of the lines of \<open>out\<close> that have three fields, a type field \<^verbatim>\<open>A\<close> or \<^verbatim>\<open>T\<close>, and a
  name outside \<^verbatim>\<open>__bss_start\<close>, \<^verbatim>\<open>_edata\<close>, \<^verbatim>\<open>_end\<close>, \<^verbatim>\<open>_fini\<close>, \<^verbatim>\<open>_init\<close>. Every symbol of
  every entry of the two reports the scan builds is none of these five names and comes from
  such a line of a scanned library. A line that does not have exactly three fields is
  skipped: the loop goes on with the same set.
\<close>

theorem dump_symbols_filter:
  "(\<forall>out. subprocess_getoutput w (nm_cmd path) = Inr out \<longrightarrow>
      (\<exists>syms. dump_symbols w path = Inr syms \<and>
         (\<forall>sym_id. sym_id \<in> syms \<longleftrightarrow>
            (\<exists>line \<in> set (split_lines out). \<exists>f0 sym_type.
               py_split (py_strip line) = [f0, sym_type, sym_id]
               \<and> sym_type \<in> {''A'', ''T''}
               \<and> sym_id \<notin> {''__bss_start'', ''_edata'', ''_end'', ''_fini'', ''_init''}))))
   \<and> (\<forall>abi_report abi_report32 soname symbols sym_id.
        scan_libraries w libs (Mapping.empty, Mapping.empty) = Inr (abi_report, abi_report32)
        \<and> (Mapping.lookup abi_report soname = Some symbols
           \<or> Mapping.lookup abi_report32 soname = Some symbols)
        \<and> sym_id \<in> symbols \<longrightarrow>
          sym_id \<notin> {''__bss_start'', ''_edata'', ''_end'', ''_fini'', ''_init''}
          \<and> (\<exists>library \<in> set libs. \<exists>out. subprocess_getoutput w (nm_cmd library) = Inr out
               \<and> (\<exists>line \<in> set (split_lines out). \<exists>f0 sym_type.
                     py_split (py_strip line) = [f0, sym_type, sym_id]
                     \<and> sym_type \<in> {''A'', ''T''})))
   \<and> (\<forall>line ls ret. length (py_split (py_strip line)) \<noteq> 3 \<longrightarrow>
        symbols_of_lines (line # ls) ret = symbols_of_lines ls ret)"
proof (intro conjI allI impI)
  fix out
  assume "subprocess_getoutput w (nm_cmd path) = Inr out"
  then show "\<exists>syms. dump_symbols w path = Inr syms \<and>
         (\<forall>sym_id. sym_id \<in> syms \<longleftrightarrow>
            (\<exists>line \<in> set (split_lines out). \<exists>f0 sym_type.
               py_split (py_strip line) = [f0, sym_type, sym_id]
               \<and> sym_type \<in> {''A'', ''T''}
               \<and> sym_id \<notin> {''__bss_start'', ''_edata'', ''_end'', ''_fini'', ''_init''}))"
    by (simp add: dump_symbols_eq symbol_of_line_Some wanted_symbol_types_def
          ignored_symbols_def)
next
  fix abi_report abi_report32 soname symbols sym_id
  assume a: "scan_libraries w libs (Mapping.empty, Mapping.empty) = Inr (abi_report, abi_report32)
        \<and> (Mapping.lookup abi_report soname = Some symbols
           \<or> Mapping.lookup abi_report32 soname = Some symbols)
        \<and> sym_id \<in> symbols"
  then have scan: "scan_libraries w libs (Mapping.empty, Mapping.empty) = Inr (abi_report, abi_report32)"
    and symin: "sym_id \<in> symbols" by simp_all
  from a obtain b where "Mapping.lookup (if b then abi_report32 else abi_report) soname = Some symbols"
    by (metis (full_types))
  with symin obtain l where l: "l \<in> set libs" and "\<exists>syms. dump_symbols w l = Inr syms \<and> sym_id \<in> syms"
    unfolding scan_libraries_from_empty[OF scan] by (auto split: if_splits)
  then obtain out where out: "subprocess_getoutput w (nm_cmd l) = Inr out"
    and "\<exists>line \<in> set (split_lines out). symbol_of_line line = Some sym_id"
    by (auto simp: dump_symbols_eq split: sum.splits)
  then obtain line f0 sym_type where line: "line \<in> set (split_lines out)"
    and f: "py_split (py_strip line) = [f0, sym_type, sym_id]"
    and t: "sym_type \<in> set wanted_symbol_types" and i: "sym_id \<notin> set ignored_symbols"
    by (auto simp: symbol_of_line_Some)
  from i show "sym_id \<notin> {''__bss_start'', ''_edata'', ''_end'', ''_fini'', ''_init''}"
    by (simp add: ignored_symbols_def)
  from l out line f t show "\<exists>library \<in> set libs. \<exists>out. subprocess_getoutput w (nm_cmd library) = Inr out
               \<and> (\<exists>line \<in> set (split_lines out). \<exists>f0 sym_type.
                     py_split (py_strip line) = [f0, sym_type, sym_id]
                     \<and> sym_type \<in> {''A'', ''T''})"
    unfolding wanted_symbol_types_def by (simp del: bex_simps) blast
next
  fix line ls ret
  assume "length (py_split (py_strip line)) \<noteq> 3"
  then have "symbol_of_line line = None"
    by (auto simp: symbol_of_line_def split: list.splits)
  then show "symbols_of_lines (line # ls) ret = symbols_of_lines ls ret" by simp
qed


theorem dump_symbols_filter_witness:
  "subprocess_getoutput demo_world (nm_cmd liba) = Inr nm_liba
   \<and> (\<exists>syms. dump_symbols demo_world liba = Inr syms \<and> ''foo'' \<in> syms \<and> ''_init'' \<notin> syms)
   \<and> (\<exists>abi_report abi_report32.
        scan_libraries demo_world (sorted_list_of_set (collect_files demo_world demo_src))
          (Mapping.empty, Mapping.empty) = Inr (abi_report, abi_report32)
        \<and> Mapping.lookup abi_report (Some ''libfoo.so.1'') = Some {''bar'', ''baz'', ''foo''}
        \<and> (\<exists>library \<in> set (sorted_list_of_set (collect_files demo_world demo_src)).
             \<exists>out. subprocess_getoutput demo_world (nm_cmd library) = Inr out
               \<and> (\<exists>line \<in> set (split_lines out). \<exists>f0 sym_type.
                     py_split (py_strip line) = [f0, sym_type, ''foo'']
                     \<and> sym_type \<in> {''A'', ''T''})))
   \<and> length (py_split (py_strip ''nm: warning'')) \<noteq> 3
   \<and> symbols_of_lines [''nm: warning'', ''0000 T baz''] {} = symbols_of_lines [''0000 T baz''] {}"
proof -
  let ?libs = "sorted_list_of_set (collect_files demo_world demo_src)"
  note inst = dump_symbols_filter[of demo_world liba ?libs]
  note part1 = inst[THEN conjunct1, rule_format]
  note part2 = inst[THEN conjunct2, THEN conjunct1, rule_format]
  note part3 = inst[THEN conjunct2, THEN conjunct2, rule_format]
  have h1: "subprocess_getoutput demo_world (nm_cmd liba) = Inr nm_liba" by code_simp
  from part1[OF h1] obtain syms where both: "dump_symbols demo_world liba = Inr syms \<and>
         (\<forall>sym_id. sym_id \<in> syms \<longleftrightarrow>
            (\<exists>line \<in> set (split_lines nm_liba). \<exists>f0 sym_type.
               py_split (py_strip line) = [f0, sym_type, sym_id]
               \<and> sym_type \<in> {''A'', ''T''}
               \<and> sym_id \<notin> {''__bss_start'', ''_edata'', ''_end'', ''_fini'', ''_init''}))" ..
  note d = both[THEN conjunct1] and iff = both[THEN conjunct2, rule_format]
  have l1: "''0000 T foo'' \<in> set (split_lines nm_liba)" by code_simp
  have l2: "py_split (py_strip ''0000 T foo'') = [''0000'', ''T'', ''foo'']" by code_simp
  have l3: "py_split (py_strip ''0000 T foo'') = [''0000'', ''T'', ''foo'']
      \<and> ''T'' \<in> {''A'', ''T''}
      \<and> ''foo'' \<notin> {''__bss_start'', ''_edata'', ''_end'', ''_fini'', ''_init''}"
    using l2 by simp
  have foo: "''foo'' \<in> syms"
    unfolding iff by (rule bexI[OF _ l1], rule exI, rule exI, rule l3)
  have init: "''_init'' \<notin> syms"
    unfolding iff by simp
  have ev: "(case scan_libraries demo_world ?libs (Mapping.empty, Mapping.empty) of
               Inl e \<Rightarrow> False
             | Inr (r, r32) \<Rightarrow>
                 Mapping.lookup r (Some ''libfoo.so.1'') = Some {''bar'', ''baz'', ''foo''})"
    by code_simp
  then obtain r r32 where
    scan: "scan_libraries demo_world ?libs (Mapping.empty, Mapping.empty) = Inr (r, r32)"
    and lk: "Mapping.lookup r (Some ''libfoo.so.1'') = Some {''bar'', ''baz'', ''foo''}"
    by (auto split: sum.splits)
  have mem: "''foo'' \<in> {''bar'', ''baz'', ''foo''}" by simp
  from part2[of r r32 "Some ''libfoo.so.1''" "{''bar'', ''baz'', ''foo''}" "''foo''"] scan lk mem
  have p2: "\<exists>library \<in> set ?libs.
             \<exists>out. subprocess_getoutput demo_world (nm_cmd library) = Inr out
               \<and> (\<exists>line \<in> set (split_lines out). \<exists>f0 sym_type.
                     py_split (py_strip line) = [f0, sym_type, ''foo'']
                     \<and> sym_type \<in> {''A'', ''T''})"
    by blast
  have h3: "length (py_split (py_strip ''nm: warning'')) \<noteq> 3" by code_simp
  from part3[OF h3] have p3: "symbols_of_lines [''nm: warning'', ''0000 T baz''] {}
      = symbols_of_lines [''0000 T baz''] {}" .
  from h1 d foo init scan lk p2 h3 p3 show ?thesis by blast
qed

text \<open>
  When the call of \<^verbatim>\<open>nm\<close> itself raises on a collected library, the run ends before
  anything is written, with an AttributeError nobody catches (the handler of \<open>dump_symbols\<close>
  with its \<^verbatim>\<open>sys.exit(1)\<close> is never entered). A call of \<^verbatim>\<open>objdump\<close> that raises makes the
  soname \<open>None\<close>, and that turn of the scan goes on as long as \<^verbatim>\<open>nm\<close> gives an output.
\<close>

lemma raising_nm_ends_run:
  assumes "prepare w download_path0 = Inr (download_path, extract_dir, source_dir)"
      and "library \<in> collect_files w source_dir"
      and "subprocess_getoutput w (nm_cmd library) = Inl exn"
  shows "examine_abi w fs download_path0 = (Some (Uncaught AttributeError), fs)
       \<and> exit_status (Uncaught AttributeError) \<noteq> 0
       \<and> (\<forall>l reports exn' out.
             subprocess_getoutput w (objdump_cmd l) = Inl exn'
             \<and> subprocess_getoutput w (nm_cmd l) = Inr out
             \<longrightarrow> get_soname w l = None \<and> (\<exists>reports'. scan_library w l reports = Inr reports'))"
proof (intro conjI allI impI)
  from assms(3) have d: "dump_symbols w library = Inl (Uncaught AttributeError)"
    by (simp add: dump_symbols_eq)
  from assms(2) have "library \<in> set (sorted_list_of_set (collect_files w source_dir))"
    by (simp add: finite_collect_files)
  from scan_libraries_fails[OF this d]
  have "scan_libraries w (sorted_list_of_set (collect_files w source_dir))
          (Mapping.empty, Mapping.empty) = Inl (Uncaught AttributeError)" .
  with assms(1) show "examine_abi w fs download_path0 = (Some (Uncaught AttributeError), fs)"
    by (simp add: examine_abi_def)
next
  show "exit_status (Uncaught AttributeError) \<noteq> 0" by simp
next
  fix l and reports :: "abi_report \<times> abi_report" and exn' :: py_exn and out :: string
  assume a: "subprocess_getoutput w (objdump_cmd l) = Inl exn'
             \<and> subprocess_getoutput w (nm_cmd l) = Inr out"
  then show "get_soname w l = None"
    by (simp add: get_soname_def get_output_def)
  obtain r r32 where rs: "reports = (r, r32)" by (cases reports)
  from a show "\<exists>reports'. scan_library w l reports = Inr reports'"
    unfolding rs scan_library_eq by (simp add: dump_symbols_eq)
qed

lemma raising_nm_ends_run_example:
  "prepare nm_fails_world ''/t'' = Inr (''/t'', ''/t/__extraction'', demo_src)
   \<and> liba \<in> collect_files nm_fails_world demo_src
   \<and> subprocess_getoutput nm_fails_world (nm_cmd liba) = Inl OSError
   \<and> examine_abi nm_fails_world Map.empty ''/t'' = (Some (Uncaught AttributeError), Map.empty)
   \<and> subprocess_getoutput nm_fails_world (objdump_cmd libb) = Inl OSError
   \<and> subprocess_getoutput nm_fails_world (nm_cmd libb) = Inr nm_libb
   \<and> get_soname nm_fails_world libb = None
   \<and> (\<exists>reports'. scan_library nm_fails_world libb (Mapping.empty, Mapping.empty) = Inr reports')"
proof -
  have h1: "prepare nm_fails_world ''/t'' = Inr (''/t'', ''/t/__extraction'', demo_src)"
    by code_simp
  have h2: "liba \<in> collect_files nm_fails_world demo_src" by code_simp
  have h3: "subprocess_getoutput nm_fails_world (nm_cmd liba) = Inl OSError" by code_simp
  note inst = raising_nm_ends_run[OF h1 h2 h3, of Map.empty]
  have h4: "subprocess_getoutput nm_fails_world (objdump_cmd libb) = Inl OSError
            \<and> subprocess_getoutput nm_fails_world (nm_cmd libb) = Inr nm_libb"
    by code_simp
  note soname = inst[THEN conjunct2, THEN conjunct2, rule_format, OF h4,
      of "(Mapping.empty, Mapping.empty)"]
  from h1 h2 h3 h4 inst[THEN conjunct1] soname show ?thesis by simp
qed

text \<open>
  C6. In the tree of \<open>nm_missing_world\<close> the symbol extraction fails for both libraries:
  \<^verbatim>\<open>nm\<close> cannot be run and the shell's error text is all there is. Nothing raises,
  \<open>dump_symbols\<close> reads the text as a line that is not a symbol and returns the empty set
  for each library, and the run ends normally, with exit status 0 and no symbol report
  written, where the handler in \<open>dump_symbols\<close> means such a failure to be fatal.
\<close>

theorem failed_nm_is_not_fatal:
  "liba \<in> collect_files nm_missing_world demo_src
   \<and> libb \<in> collect_files nm_missing_world demo_src
   \<and> subprocess_getoutput nm_missing_world (nm_cmd liba) = Inr ''/bin/sh: 1: nm: not found''
   \<and> subprocess_getoutput nm_missing_world (nm_cmd libb) = Inr ''/bin/sh: 1: nm: not found''
   \<and> dump_symbols nm_missing_world liba = Inr {}
   \<and> dump_symbols nm_missing_world libb = Inr {}
   \<and> fst (examine_abi nm_missing_world Map.empty ''/t'') = None
   \<and> snd (examine_abi nm_missing_world Map.empty ''/t'') ''/t/abi_symbols'' = None
   \<and> snd (examine_abi nm_missing_world [''/t/abi_symbols'' \<mapsto> ''old:sym'']
        ''/t'') ''/t/abi_symbols'' = Some []"
  by code_simp

text \<open>
  C7. In the tree of \<open>readelf_fails_world\<close> the call of \<^verbatim>\<open>readelf\<close> on the executable raises
  UnicodeDecodeError. \<open>get_output\<close> swallows it and returns \<open>None\<close>;
  \<open>get_shared_dependencies\<close> does not return the empty set but raises AttributeError, which
  goes through \<open>get_all_native_dependencies\<close> and ends the run.
\<close>

theorem get_shared_dependencies_raises:
  "subprocess_getoutput readelf_fails_world (readelf_cmd tool) = Inl UnicodeDecodeError
   \<and> get_shared_dependencies readelf_fails_world tool = Inl (Uncaught AttributeError)
   \<and> get_all_native_dependencies readelf_fails_world demo_src = Inl (Uncaught AttributeError)
   \<and> fst (examine_abi readelf_fails_world Map.empty ''/t'') = Some (Uncaught AttributeError)"
  by code_simp

text \<open>
  C2, as stated, fails. In the tree of \<open>exe_soname_world\<close> the 64-bit executable is a dynamic
  binary that is no valid shared library and has the soname \<^verbatim>\<open>libtool.so\<close>. That soname is
  not in the provided set of the 64-bit dependency pass, and so \<^verbatim>\<open>libtool.so\<close>, which
  \<^verbatim>\<open>liba.so\<close> needs, stays in the 64-bit dependency report.
\<close>

theorem provided_sonames_counterexample:
  "tool \<in> walked_paths (os_walk exe_soname_world demo_src)
   \<and> is_dynamic_binary exe_soname_world tool
   \<and> \<not> is_32bit exe_soname_world tool
   \<and> \<not> is_file_valid exe_soname_world tool
   \<and> get_soname exe_soname_world tool = Some ''libtool.so''
   \<and> ''libtool.so'' \<notin> provided_sonames exe_soname_world False demo_src
   \<and> get_all_native_dependencies exe_soname_world demo_src = Inr {''libc.so.6'', ''libtool.so''}"
  by code_simp

text \<open>
  C2, amended. The provided set of a dependency pass holds exactly the sonames of the walked
  files of that bit-width that are dynamic binaries and pass \<open>is_file_valid\<close>; it is the set
  both \<open>get_all_native_dependencies\<close> and \<open>get_all_32bit_dependencies\<close> subtract in their
  second loop.
\<close>

theorem provided_sonames_of_valid_libraries:
  "(s \<in> provided_sonames w want32 path \<longleftrightarrow>
      (\<exists>fpath \<in> walked_paths (os_walk w path).
         is_dynamic_binary w fpath \<and> is_32bit w fpath = want32
         \<and> is_file_valid w fpath \<and> get_soname w fpath = Some s))
   \<and> get_all_native_dependencies w path =
       deps_loop w (provided_sonames w False path)
         (sorted_list_of_set (examine_set w False path)) {}
   \<and> get_all_32bit_dependencies w path =
       deps_loop w (provided_sonames w True path)
         (sorted_list_of_set (examine_set w True path)) {}"
  by (simp add: provided_sonames_eq get_all_native_dependencies_def
        get_all_32bit_dependencies_def all_dependencies_def Let_def)

theorem provided_sonames_of_valid_libraries_witness:
  "liba \<in> walked_paths (os_walk demo_world demo_src)
   \<and> is_dynamic_binary demo_world liba \<and> is_32bit demo_world liba = False
   \<and> is_file_valid demo_world liba \<and> get_soname demo_world liba = Some ''libfoo.so.1''
   \<and> ''libfoo.so.1'' \<in> provided_sonames demo_world False demo_src"
proof -
  have h: "liba \<in> walked_paths (os_walk demo_world demo_src)
     \<and> is_dynamic_binary demo_world liba \<and> is_32bit demo_world liba = False
     \<and> is_file_valid demo_world liba \<and> get_soname demo_world liba = Some ''libfoo.so.1''"
    by code_simp
  then have "\<exists>fpath \<in> walked_paths (os_walk demo_world demo_src).
         is_dynamic_binary demo_world fpath \<and> is_32bit demo_world fpath = False
         \<and> is_file_valid demo_world fpath \<and> get_soname demo_world fpath = Some ''libfoo.so.1''"
    by (intro bexI[of _ liba]) simp_all
  from provided_sonames_of_valid_libraries[THEN conjunct1, THEN iffD2, OF this] h
  show ?thesis by simp
qed

text \<open>
  C3, as stated, fails. In the tree of \<open>exe_soname_world\<close> the 64-bit executable is a dynamic
  binary with the soname \<^verbatim>\<open>libtool.so\<close>, so that soname is provided inside the tree by the
  64-bit partition; \<^verbatim>\<open>liba.so\<close> declares the dependency \<^verbatim>\<open>libtool.so\<close>, and the 64-bit report
  still holds \<^verbatim>\<open>libtool.so\<close>: the report is not the declared dependencies minus the sonames
  provided by the dynamic binaries. In the tree of \<open>device_world\<close> a walked path passes
  \<open>is_file_valid\<close> and has the soname \<^verbatim>\<open>libdev.so\<close>, but it is not a regular file; the
  64-bit report holds \<^verbatim>\<open>libdev.so\<close>.
\<close>

theorem dependency_report_counterexample:
  "tool \<in> walked_paths (os_walk exe_soname_world demo_src)
   \<and> is_dynamic_binary exe_soname_world tool
   \<and> \<not> is_32bit exe_soname_world tool
   \<and> get_soname exe_soname_world tool = Some ''libtool.so''
   \<and> liba \<in> walked_paths (os_walk exe_soname_world demo_src)
   \<and> is_dynamic_binary exe_soname_world liba
   \<and> \<not> is_32bit exe_soname_world liba
   \<and> get_shared_dependencies exe_soname_world liba = Inr {''libtool.so''}
   \<and> get_all_native_dependencies exe_soname_world demo_src = Inr {''libc.so.6'', ''libtool.so''}
   \<and> ''libtool.so'' \<in> {''libc.so.6'', ''libtool.so''}
   \<and> libdev \<in> walked_paths (os_walk device_world demo_src)
   \<and> is_file_valid device_world libdev
   \<and> \<not> path_isfile device_world libdev
   \<and> \<not> is_32bit device_world libdev
   \<and> get_soname device_world libdev = Some ''libdev.so''
   \<and> get_all_native_dependencies device_world demo_src = Inr {''libc.so.6'', ''libdev.so''}
   \<and> ''libdev.so'' \<in> {''libc.so.6'', ''libdev.so''}"
  by code_simp

text \<open>
  C3, amended. For either bit-width the dependency pass returns when \<^verbatim>\<open>readelf\<close> gives an
  output for every examined file, and what it returns is the union of the declared
  dependencies of the walked dynamic binaries of that bit-width, minus the sonames of the
  walked dynamic binaries of that bit-width that pass \<open>is_file_valid\<close>. No name it returns
  is the soname of a walked regular file of that bit-width that passes \<open>is_file_valid\<close>.
\<close>

theorem dependency_report_is_declared_minus_provided:
  "((\<forall>p \<in> examine_set w want32 path. \<exists>out. subprocess_getoutput w (readelf_cmd p) = Inr out)
      \<longrightarrow> (\<exists>deps. (if want32 then get_all_32bit_dependencies w path
                     else get_all_native_dependencies w path) = Inr deps))
   \<and> ((if want32 then get_all_32bit_dependencies w path
        else get_all_native_dependencies w path) = Inr deps \<longrightarrow>
        deps = {s. \<exists>p \<in> walked_paths (os_walk w path).
                     is_dynamic_binary w p \<and> is_32bit w p = want32
                     \<and> (\<exists>c. get_shared_dependencies w p = Inr c \<and> s \<in> c)}
               - {s. \<exists>fpath \<in> walked_paths (os_walk w path).
                     is_dynamic_binary w fpath \<and> is_32bit w fpath = want32
                     \<and> is_file_valid w fpath \<and> get_soname w fpath = Some s}
        \<and> (\<forall>fpath \<in> walked_paths (os_walk w path). \<forall>s.
              path_isfile w fpath \<and> is_file_valid w fpath \<and> is_32bit w fpath = want32
              \<and> get_soname w fpath = Some s \<longrightarrow> s \<notin> deps))"
proof -
  have fn: "(if want32 then get_all_32bit_dependencies w path
             else get_all_native_dependencies w path) = all_dependencies w want32 path"
    by (simp add: get_all_32bit_dependencies_def get_all_native_dependencies_def)
  have ok: "(\<exists>c. get_shared_dependencies w p = Inr c)
            \<longleftrightarrow> (\<exists>out. subprocess_getoutput w (readelf_cmd p) = Inr out)" for p
    by (auto simp: get_shared_dependencies_def get_output_def split: sum.splits)
  show ?thesis
    unfolding fn all_dependencies_eq ok examine_set_eq provided_sonames_eq
    using valid_regular_is_dynamic[of w]
    by (auto split: if_splits)
qed

theorem dependency_report_is_declared_minus_provided_witness:
  "examine_set demo_world False demo_src = {liba, libb, tool}
   \<and> (\<exists>out. subprocess_getoutput demo_world (readelf_cmd liba) = Inr out)
   \<and> (\<exists>out. subprocess_getoutput demo_world (readelf_cmd libb) = Inr out)
   \<and> (\<exists>out. subprocess_getoutput demo_world (readelf_cmd tool) = Inr out)
   \<and> (\<exists>deps. get_all_native_dependencies demo_world demo_src = Inr deps)
   \<and> get_all_native_dependencies demo_world demo_src = Inr {''libc.so.6''}
   \<and> liba \<in> walked_paths (os_walk demo_world demo_src)
   \<and> path_isfile demo_world liba \<and> is_file_valid demo_world liba
   \<and> is_32bit demo_world liba = False \<and> get_soname demo_world liba = Some ''libfoo.so.1''
   \<and> ''libfoo.so.1'' \<notin> {''libc.so.6''}
   \<and> {''libc.so.6''} =
       {s. \<exists>p \<in> walked_paths (os_walk demo_world demo_src).
              is_dynamic_binary demo_world p \<and> is_32bit demo_world p = False
              \<and> (\<exists>c. get_shared_dependencies demo_world p = Inr c \<and> s \<in> c)}
       - {s. \<exists>fpath \<in> walked_paths (os_walk demo_world demo_src).
              is_dynamic_binary demo_world fpath \<and> is_32bit demo_world fpath = False
              \<and> is_file_valid demo_world fpath \<and> get_soname demo_world fpath = Some s}"
proof -
  note inst = dependency_report_is_declared_minus_provided[of demo_world False demo_src
      "{''libc.so.6''}"]
  have h0: "\<forall>p \<in> examine_set demo_world False demo_src.
      \<exists>out. subprocess_getoutput demo_world (readelf_cmd p) = Inr out"
  proof -
    have "\<forall>p \<in> examine_set demo_world False demo_src.
            \<not> isl (subprocess_getoutput demo_world (readelf_cmd p))"
      by code_simp
    moreover have "\<not> isl x \<Longrightarrow> \<exists>out. x = Inr out" for x :: "py_exn + string"
      by (cases x) simp_all
    ultimately show ?thesis by blast
  qed
  have h1: "(if False then get_all_32bit_dependencies demo_world demo_src
             else get_all_native_dependencies demo_world demo_src) = Inr {''libc.so.6''}"
    by code_simp
  note concl = inst[THEN conjunct2, rule_format, OF h1]
  have h2: "liba \<in> walked_paths (os_walk demo_world demo_src)" by code_simp
  have h3: "path_isfile demo_world liba \<and> is_file_valid demo_world liba
     \<and> is_32bit demo_world liba = False \<and> get_soname demo_world liba = Some ''libfoo.so.1''"
    by code_simp
  from concl[THEN conjunct2, rule_format, OF h2 h3]
  have c2: "''libfoo.so.1'' \<notin> {''libc.so.6''}" .
  have e: "examine_set demo_world False demo_src = {liba, libb, tool}" by code_simp
  from h0 have outs:
    "\<exists>out. subprocess_getoutput demo_world (readelf_cmd liba) = Inr out"
    "\<exists>out. subprocess_getoutput demo_world (readelf_cmd libb) = Inr out"
    "\<exists>out. subprocess_getoutput demo_world (readelf_cmd tool) = Inr out"
    unfolding e by simp_all
  from inst[THEN conjunct1, THEN mp, OF h0]
  have ret: "\<exists>deps. get_all_native_dependencies demo_world demo_src = Inr deps"
    by (simp only: if_False)
  from e outs ret h1 h2 h3 c2 concl[THEN conjunct1] show ?thesis by simp
qed

text \<open>
  C1, as stated, fails. The run on the tree of \<open>demo_world\<close>, started with no file in the
  target directory, ends normally; its 32-bit symbol report is empty, and afterwards there
  is still no file \<^verbatim>\<open>abi_symbols32\<close>: \<open>truncate_file\<close> returns at once for a path that does
  not exist.
\<close>

theorem empty_report_file_not_created:
  "prepare demo_world ''/t'' = Inr (''/t'', ''/t/__extraction'', demo_src)
   \<and> \<not> isl (scan_libraries demo_world (sorted_list_of_set (collect_files demo_world demo_src))
             (Mapping.empty, Mapping.empty))
   \<and> Mapping.keys (snd (projr (scan_libraries demo_world
         (sorted_list_of_set (collect_files demo_world demo_src))
         (Mapping.empty, Mapping.empty)))) = {}
   \<and> fst (examine_abi demo_world Map.empty ''/t'') = None
   \<and> os_path_join ''/t'' ''abi_symbols32'' = ''/t/abi_symbols32''
   \<and> snd (examine_abi demo_world Map.empty ''/t'') ''/t/abi_symbols32'' = None"
  by code_simp

text \<open>
  C1, amended. For every run whose Write step is reached and completes, the store the run
  leaves is the one the Write step leaves, and for each of the four reports that is empty,
  the file of that report has length zero afterwards if a file of that name existed before
  the run, and is still absent if none did.
\<close>

theorem empty_report_truncates_existing_file:
  assumes "prepare w download_path0 = Inr (download_path, extract_dir, source_dir)"
      and "scan_libraries w (sorted_list_of_set (collect_files w source_dir))
             (Mapping.empty, Mapping.empty) = Inr (abi_report, abi_report32)"
      and "write_reports w fs download_path source_dir (abi_report, abi_report32) = (None, fs')"
      and "get_all_native_dependencies w source_dir = Inr lib_deps"
      and "get_all_32bit_dependencies w source_dir = Inr lib_deps32"
  shows "snd (examine_abi w fs download_path0) = fs'
    \<and> (Mapping.keys abi_report = {} \<longrightarrow>
         fs' (os_path_join download_path ''abi_symbols'') =
           (if fs (os_path_join download_path ''abi_symbols'') = None then None else Some []))
    \<and> (Mapping.keys abi_report32 = {} \<longrightarrow>
         fs' (os_path_join download_path ''abi_symbols32'') =
           (if fs (os_path_join download_path ''abi_symbols32'') = None then None else Some []))
    \<and> (lib_deps = {} \<longrightarrow>
         fs' (os_path_join download_path ''abi_used_libs'') =
           (if fs (os_path_join download_path ''abi_used_libs'') = None then None else Some []))
    \<and> (lib_deps32 = {} \<longrightarrow>
         fs' (os_path_join download_path ''abi_used_libs32'') =
           (if fs (os_path_join download_path ''abi_used_libs32'') = None then None else Some []))"
proof -
  let ?p1 = "os_path_join download_path ''abi_symbols''"
  let ?p2 = "os_path_join download_path ''abi_symbols32''"
  let ?p3 = "os_path_join download_path ''abi_used_libs''"
  let ?p4 = "os_path_join download_path ''abi_used_libs32''"
  from report_paths_distinct[of download_path]
  have ne: "?p1 \<noteq> ?p2" "?p1 \<noteq> ?p3" "?p1 \<noteq> ?p4" "?p2 \<noteq> ?p3" "?p2 \<noteq> ?p4" "?p3 \<noteq> ?p4"
           "?p2 \<noteq> ?p1" "?p3 \<noteq> ?p1" "?p4 \<noteq> ?p1" "?p3 \<noteq> ?p2" "?p4 \<noteq> ?p2" "?p4 \<noteq> ?p3"
    by auto
  from write_reports_done[OF assms(3)] assms(4,5) obtain fs1 fs2 where
    w1: "write_abi_report fs ?p1 abi_report = (None, fs1)" and
    w2: "write_abi_report fs1 ?p2 abi_report32 = (None, fs2)" and
    fs': "fs' = write_deps (write_deps fs2 ?p3 lib_deps) ?p4 lib_deps32"
    by auto
  from w1 have s1: "fs1 = snd (write_abi_report fs ?p1 abi_report)" by simp
  from w2 have s2: "fs2 = snd (write_abi_report fs1 ?p2 abi_report32)" by simp
  have run: "snd (examine_abi w fs download_path0) = fs'"
    using assms(1,2,3) by (simp add: examine_abi_def)
  have f1: "fs1 ?p2 = fs ?p2" "fs1 ?p3 = fs ?p3" "fs1 ?p4 = fs ?p4"
    unfolding s1 using ne by (simp_all add: write_abi_report_other)
  have f2: "fs2 ?p1 = fs1 ?p1" "fs2 ?p3 = fs ?p3" "fs2 ?p4 = fs ?p4"
    unfolding s2 using ne f1 by (simp_all add: write_abi_report_other)
  have c1: "fs' ?p1 = fs1 ?p1"
    unfolding fs' using ne f2 by (simp add: write_deps_other)
  have c2: "fs' ?p2 = fs2 ?p2"
    unfolding fs' using ne by (simp add: write_deps_other)
  have c3: "fs' ?p3 = write_deps fs2 ?p3 lib_deps ?p3"
    unfolding fs' using ne by (simp add: write_deps_other)
  have c4: "fs' ?p4 = write_deps (write_deps fs2 ?p3 lib_deps) ?p4 lib_deps32 ?p4"
    unfolding fs' ..
  have e1: "Mapping.keys abi_report = {} \<longrightarrow> fs' ?p1 = (if fs ?p1 = None then None else Some [])"
    unfolding c1 s1 by (simp add: write_abi_report_empty)
  have e2: "Mapping.keys abi_report32 = {} \<longrightarrow> fs' ?p2 = (if fs ?p2 = None then None else Some [])"
    unfolding c2 s2 using f1 by (simp add: write_abi_report_empty)
  have e3: "lib_deps = {} \<longrightarrow> fs' ?p3 = (if fs ?p3 = None then None else Some [])"
    unfolding c3 using f2 by (simp add: write_deps_empty)
  have e4: "lib_deps32 = {} \<longrightarrow> fs' ?p4 = (if fs ?p4 = None then None else Some [])"
    unfolding c4 using f2 ne by (simp add: write_deps_empty write_deps_other)
  from run e1 e2 e3 e4 show ?thesis by blast
qed


theorem empty_report_truncates_existing_file_witness:
  "prepare demo_world ''/t'' = Inr (''/t'', ''/t/__extraction'', demo_src)
   \<and> \<not> isl (scan_libraries demo_world (sorted_list_of_set (collect_files demo_world demo_src))
             (Mapping.empty, Mapping.empty))
   \<and> fst (write_reports demo_world [''/t/abi_used_libs32'' \<mapsto> ''old''] ''/t'' demo_src
        (projr (scan_libraries demo_world (sorted_list_of_set (collect_files demo_world demo_src))
             (Mapping.empty, Mapping.empty)))) = None
   \<and> get_all_native_dependencies demo_world demo_src = Inr {''libc.so.6''}
   \<and> get_all_32bit_dependencies demo_world demo_src = Inr {}
   \<and> snd (examine_abi demo_world [''/t/abi_used_libs32'' \<mapsto> ''old''] ''/t'')
        (os_path_join ''/t'' ''abi_used_libs32'') = Some []"
proof -
  let ?fs = "[''/t/abi_used_libs32'' \<mapsto> ''old'']"
  let ?scan = "scan_libraries demo_world (sorted_list_of_set (collect_files demo_world demo_src))
             (Mapping.empty, Mapping.empty)"
  let ?rs = "projr ?scan"
  let ?wr = "write_reports demo_world ?fs ''/t'' demo_src (fst ?rs, snd ?rs)"
  have h1: "prepare demo_world ''/t'' = Inr (''/t'', ''/t/__extraction'', demo_src)"
    by code_simp
  have h2: "\<not> isl ?scan" by code_simp
  then have scan: "?scan = Inr (fst ?rs, snd ?rs)" by simp
  have h3: "fst (write_reports demo_world ?fs ''/t'' demo_src ?rs) = None" by code_simp
  then have wr: "?wr = (None, snd ?wr)"
    by (metis prod.collapse)
  have h4: "get_all_native_dependencies demo_world demo_src = Inr {''libc.so.6''}" by code_simp
  have h5: "get_all_32bit_dependencies demo_world demo_src = Inr {}" by code_simp
  note inst = empty_report_truncates_existing_file[OF h1 scan wr h4 h5]
  have p: "os_path_join ''/t'' ''abi_used_libs32'' = ''/t/abi_used_libs32''" by code_simp
  from inst[THEN conjunct1] inst[THEN conjunct2, THEN conjunct2, THEN conjunct2, THEN conjunct2]
  have "snd (examine_abi demo_world ?fs ''/t'') (os_path_join ''/t'' ''abi_used_libs32'') = Some []"
    unfolding p by simp
  with h1 h2 h3 h4 h5 show ?thesis by simp
qed

text \<open>
  C5. Let two distinct collected files have the same soname and the same bit-width. After
  the scan, the entry of that soname in the report of that bit-width is the union \<open>merged\<close>
  of the symbol sets of all collected files with that soname and bit-width (there is no
  entry when that union is empty); it contains the symbols of both files. \<open>merged\<close> is
  finite, and the text of the entry has one line \<^verbatim>\<open>soname:symbol\<close> for each of its symbols,
  in sorted order and without repetition. Whenever the report is written, that text is a
  block of the file.
\<close>

theorem same_soname_entries_are_merged:
  assumes "scan_libraries w (sorted_list_of_set (collect_files w source_dir))
             (Mapping.empty, Mapping.empty) = Inr (abi_report, abi_report32)"
      and "f1 \<in> collect_files w source_dir" and "f2 \<in> collect_files w source_dir"
      and "f1 \<noteq> f2"
      and "get_soname w f1 = Some soname" and "get_soname w f2 = Some soname"
      and "is_32bit w f1 = want32" and "is_32bit w f2 = want32"
      and "dump_symbols w f1 = Inr symbols1" and "dump_symbols w f2 = Inr symbols2"
  shows "let tgt = (if want32 then abi_report32 else abi_report);
             merged = \<Union>{symbols. \<exists>f \<in> collect_files w source_dir.
                          get_soname w f = Some soname \<and> is_32bit w f = want32
                          \<and> dump_symbols w f = Inr symbols}
         in Mapping.lookup tgt (Some soname) = (if merged = {} then None else Some merged)
          \<and> symbols1 \<union> symbols2 \<subseteq> merged
          \<and> finite merged
          \<and> sorted (sorted_list_of_set merged) \<and> distinct (sorted_list_of_set merged)
          \<and> set (sorted_list_of_set merged) = merged
          \<and> entry_lines (Some soname) merged =
              concat (map (\<lambda>symbol. soname @ '':'' @ symbol @ [CHR 0x0A])
                        (sorted_list_of_set merged))
          \<and> (merged \<noteq> {} \<longrightarrow>
               (\<forall>fs report_file fs'. write_abi_report fs report_file tgt = (None, fs') \<longrightarrow>
                  (\<exists>before after. fs' report_file =
                       Some (before @ entry_lines (Some soname) merged @ after))))"
proof -
  let ?libs = "sorted_list_of_set (collect_files w source_dir)"
  let ?tgt = "if want32 then abi_report32 else abi_report"
  let ?merged = "\<Union>{symbols. \<exists>f \<in> collect_files w source_dir.
                          get_soname w f = Some soname \<and> is_32bit w f = want32
                          \<and> dump_symbols w f = Inr symbols}"
  have libs: "set ?libs = collect_files w source_dir"
    by (simp add: finite_collect_files)
  have lk: "Mapping.lookup ?tgt (Some soname) = (if ?merged = {} then None else Some ?merged)"
    using scan_libraries_from_empty[OF assms(1), of want32 "Some soname"]
    unfolding libs .
  have sub: "symbols1 \<union> symbols2 \<subseteq> ?merged"
    using assms(2,3,5-10) by blast
  have "?merged \<subseteq> \<Union>((\<lambda>f. case dump_symbols w f of Inl e \<Rightarrow> {} | Inr symbols \<Rightarrow> symbols) `
          collect_files w source_dir)"
    by (auto split: sum.splits)
  moreover have "finite (\<Union>((\<lambda>f. case dump_symbols w f of Inl e \<Rightarrow> {} | Inr symbols \<Rightarrow> symbols) `
          collect_files w source_dir))"
    by (auto simp: finite_collect_files finite_dump_symbols split: sum.splits)
  ultimately have fin: "finite ?merged" by (rule finite_subset)
  have el: "entry_lines (Some soname) ?merged =
              concat (map (\<lambda>symbol. soname @ '':'' @ symbol @ [CHR 0x0A])
                        (sorted_list_of_set ?merged))"
    by (simp add: entry_lines_def)
  have wr: "\<exists>before after. fs' report_file =
                       Some (before @ entry_lines (Some soname) ?merged @ after)"
    if ne: "?merged \<noteq> {}" and w: "write_abi_report fs report_file ?tgt = (None, fs')"
    for fs report_file fs'
  proof -
    from lk ne have l: "Mapping.lookup ?tgt (Some soname) = Some ?merged" by simp
    then have k: "Some soname \<in> Mapping.keys ?tgt"
      by (simp add: Mapping.keys_dom_lookup domIff)
    have "Mapping.keys ?tgt \<subseteq> get_soname w ` set ?libs"
      by (rule scan_libraries_keys[OF assms(1)])
    then have fk: "finite (Mapping.keys ?tgt)"
      by (rule finite_subset) simp
    from w k obtain keys where sk: "sorted_keys (Mapping.keys ?tgt) = Inr keys"
      and fs': "fs' = fs(report_file \<mapsto> report_text ?tgt keys)"
      by (auto simp: write_abi_report_def split: if_splits sum.splits)
    from sorted_keys_set[OF fk sk] k have "Some soname \<in> set keys" by simp
    from report_text_entry[OF this l] show ?thesis
      unfolding fs' by auto
  qed
  from lk sub fin el wr show ?thesis
    unfolding Let_def by (simp add: fin)
qed


theorem same_soname_entries_are_merged_witness:
  "liba \<in> collect_files demo_world demo_src \<and> libb \<in> collect_files demo_world demo_src
   \<and> liba \<noteq> libb
   \<and> get_soname demo_world liba = Some ''libfoo.so.1''
   \<and> get_soname demo_world libb = Some ''libfoo.so.1''
   \<and> is_32bit demo_world liba = False \<and> is_32bit demo_world libb = False
   \<and> dump_symbols demo_world liba = Inr {''bar'', ''foo''}
   \<and> dump_symbols demo_world libb = Inr {''baz'', ''foo''}
   \<and> (\<exists>abi_report abi_report32 merged.
        scan_libraries demo_world (sorted_list_of_set (collect_files demo_world demo_src))
          (Mapping.empty, Mapping.empty) = Inr (abi_report, abi_report32)
        \<and> Mapping.lookup abi_report (Some ''libfoo.so.1'') = Some merged
        \<and> {''bar'', ''foo''} \<union> {''baz'', ''foo''} \<subseteq> merged
        \<and> (\<forall>fs report_file fs'.
              write_abi_report fs report_file abi_report = (None, fs') \<longrightarrow>
                (\<exists>before after. fs' report_file =
                     Some (before @ entry_lines (Some ''libfoo.so.1'') merged @ after))))
   \<and> snd (examine_abi demo_world Map.empty ''/t'') ''/t/abi_symbols'' =
       Some (''libfoo.so.1:bar'' @ [CHR 0x0A] @ ''libfoo.so.1:baz'' @ [CHR 0x0A]
             @ ''libfoo.so.1:foo'' @ [CHR 0x0A])"
proof -
  let ?scan = "scan_libraries demo_world (sorted_list_of_set (collect_files demo_world demo_src))
             (Mapping.empty, Mapping.empty)"
  let ?rs = "projr ?scan"
  let ?merged = "\<Union>{symbols. \<exists>f \<in> collect_files demo_world demo_src.
                          get_soname demo_world f = Some ''libfoo.so.1''
                          \<and> is_32bit demo_world f = False
                          \<and> dump_symbols demo_world f = Inr symbols}"
  have h0: "\<not> isl ?scan" by code_simp
  then have scan: "?scan = Inr (fst ?rs, snd ?rs)" by simp
  have h1: "liba \<in> collect_files demo_world demo_src" by code_simp
  have h2: "libb \<in> collect_files demo_world demo_src" by code_simp
  have h3: "liba \<noteq> libb" by code_simp
  have h4: "get_soname demo_world liba = Some ''libfoo.so.1''" by code_simp
  have h5: "get_soname demo_world libb = Some ''libfoo.so.1''" by code_simp
  have h6: "is_32bit demo_world liba = False" by code_simp
  have h7: "is_32bit demo_world libb = False" by code_simp
  have h8: "dump_symbols demo_world liba = Inr {''bar'', ''foo''}" by code_simp
  have h9: "dump_symbols demo_world libb = Inr {''baz'', ''foo''}" by code_simp
  note inst = same_soname_entries_are_merged[OF scan h1 h2 h3 h4 h5 h6 h7 h8 h9,
      unfolded Let_def if_False]
  from inst[THEN conjunct2, THEN conjunct1]
  have sub: "{''bar'', ''foo''} \<union> {''baz'', ''foo''} \<subseteq> ?merged" .
  then have ne: "?merged \<noteq> {}" by blast
  have lk: "Mapping.lookup (fst ?rs) (Some ''libfoo.so.1'') = Some ?merged"
    using inst[THEN conjunct1] ne by (simp only: if_False)
  note last = inst[THEN conjunct2, THEN conjunct2, THEN conjunct2, THEN conjunct2,
      THEN conjunct2, THEN conjunct2, THEN conjunct2]
  have wr: "\<forall>fs report_file fs'.
              write_abi_report fs report_file (fst ?rs) = (None, fs') \<longrightarrow>
                (\<exists>before after. fs' report_file =
                     Some (before @ entry_lines (Some ''libfoo.so.1'') ?merged @ after))"
    by (rule last[THEN mp, OF ne])
  have run: "snd (examine_abi demo_world Map.empty ''/t'') ''/t/abi_symbols'' =
       Some (''libfoo.so.1:bar'' @ [CHR 0x0A] @ ''libfoo.so.1:baz'' @ [CHR 0x0A]
             @ ''libfoo.so.1:foo'' @ [CHR 0x0A])"
    by code_simp
  from scan lk sub wr have
    "\<exists>abi_report abi_report32 merged.
        ?scan = Inr (abi_report, abi_report32)
        \<and> Mapping.lookup abi_report (Some ''libfoo.so.1'') = Some merged
        \<and> {''bar'', ''foo''} \<union> {''baz'', ''foo''} \<subseteq> merged
        \<and> (\<forall>fs report_file fs'.
              write_abi_report fs report_file abi_report = (None, fs') \<longrightarrow>
                (\<exists>before after. fs' report_file =
                     Some (before @ entry_lines (Some ''libfoo.so.1'') merged @ after)))"
    by (intro exI conjI)
  with h1 h2 h3 h4 h5 h6 h7 h8 h9 run show ?thesis by (intro conjI)
qed

text \<open>
  C10. In the tree of \<open>no_soname_world\<close> the library \<^verbatim>\<open>libb.so\<close> has no soname and exports two
  symbols, \<^verbatim>\<open>liba.so\<close> has the soname \<^verbatim>\<open>libfoo.so.1\<close>. The scan does not end the run, and
  the symbols of \<^verbatim>\<open>libb.so\<close> are in the 64-bit report under the key \<open>None\<close>. The Write step
  then sorts the keys \<open>None\<close> and \<^verbatim>\<open>libfoo.so.1\<close>: the sort raises TypeError, no key is
  iterated, the run ends with \<^verbatim>\<open>abi_symbols\<close> opened and empty and no dependency report
  written.
\<close>

theorem null_soname_key_breaks_sort:
  "get_soname no_soname_world libb = None
   \<and> dump_symbols no_soname_world libb = Inr {''baz'', ''foo''}
   \<and> \<not> isl (scan_libraries no_soname_world
              (sorted_list_of_set (collect_files no_soname_world demo_src))
              (Mapping.empty, Mapping.empty))
   \<and> Mapping.keys (fst (projr (scan_libraries no_soname_world
              (sorted_list_of_set (collect_files no_soname_world demo_src))
              (Mapping.empty, Mapping.empty)))) = {None, Some ''libfoo.so.1''}
   \<and> Mapping.lookup (fst (projr (scan_libraries no_soname_world
              (sorted_list_of_set (collect_files no_soname_world demo_src))
              (Mapping.empty, Mapping.empty)))) None = Some {''baz'', ''foo''}
   \<and> sorted_keys {None, Some ''libfoo.so.1''} = Inl (Uncaught TypeError)
   \<and> fst (examine_abi no_soname_world Map.empty ''/t'') = Some (Uncaught TypeError)
   \<and> snd (examine_abi no_soname_world Map.empty ''/t'') ''/t/abi_symbols'' = Some []
   \<and> snd (examine_abi no_soname_world Map.empty ''/t'') ''/t/abi_used_libs'' = None"
  by code_simp

text \<open>
  C4. Take a world and list each of its directories in any other order: \<open>listdir\<close> gives the
  same entries for every directory, and the walk visits the same paths. Then the run ends
  the same way and leaves the same store, so every report file has the same bytes. A second
  run, started from the store the first run left, ends the same way and leaves that store
  unchanged. What is written does not depend on an order of arrival: a dependency report
  is one name and a newline for each name of the set, in sorted order, each once; a symbol
  report with string keys is, for the sonames in sorted order, each once, the lines
  \<^verbatim>\<open>soname:symbol\<close> for the symbols of that soname in sorted order.
\<close>

theorem report_files_independent_of_listing_order:
  assumes "\<forall>d. set (listdir' d) = set (listdir w d)"
      and "\<forall>d. walked_paths (os_walk' d) = walked_paths (os_walk w d)"
  shows "examine_abi (w\<lparr>listdir := listdir', os_walk := os_walk'\<rparr>) fs download_path
           = examine_abi w fs download_path
     \<and> examine_abi w (snd (examine_abi w fs download_path)) download_path
           = examine_abi w fs download_path
     \<and> (\<forall>report_file lib_deps. finite lib_deps \<and> lib_deps \<noteq> {} \<longrightarrow>
          (\<exists>names. sorted names \<and> distinct names \<and> set names = lib_deps
             \<and> write_deps fs report_file lib_deps =
                 fs(report_file \<mapsto> concat (map (\<lambda>soname. soname @ [CHR 0x0A]) names))))
     \<and> (\<forall>report_file report.
          finite (Mapping.keys report) \<and> Mapping.keys report \<noteq> {}
          \<and> None \<notin> Mapping.keys report \<longrightarrow>
          (\<exists>sonames. sorted sonames \<and> distinct sonames
             \<and> Some ` set sonames = Mapping.keys report
             \<and> write_abi_report fs report_file report =
                 (None, fs(report_file \<mapsto>
                    concat (map (\<lambda>soname.
                      concat (map (\<lambda>symbol. soname @ '':'' @ symbol @ [CHR 0x0A])
                        (sorted_list_of_set (the (Mapping.lookup report (Some soname))))))
                      sonames)))))"
proof (intro conjI allI impI)
  show "examine_abi (w\<lparr>listdir := listdir', os_walk := os_walk'\<rparr>) fs download_path
           = examine_abi w fs download_path"
    by (rule examine_abi_listing[OF assms])
next
  show "examine_abi w (snd (examine_abi w fs download_path)) download_path
           = examine_abi w fs download_path"
    by (rule examine_abi_idem)
next
  fix report_file :: string and lib_deps :: "string set"
  assume a: "finite lib_deps \<and> lib_deps \<noteq> {}"
  let ?names = "sorted_list_of_set lib_deps"
  from a have "sorted ?names \<and> distinct ?names \<and> set ?names = lib_deps
             \<and> write_deps fs report_file lib_deps =
                 fs(report_file \<mapsto> concat (map (\<lambda>soname. soname @ [CHR 0x0A]) ?names))"
    by (simp add: write_deps_def deps_text_def)
  then show "\<exists>names. sorted names \<and> distinct names \<and> set names = lib_deps
             \<and> write_deps fs report_file lib_deps =
                 fs(report_file \<mapsto> concat (map (\<lambda>soname. soname @ [CHR 0x0A]) names))"
    by (rule exI)
next
  fix report_file :: string and report :: abi_report
  assume a: "finite (Mapping.keys report) \<and> Mapping.keys report \<noteq> {}
          \<and> None \<notin> Mapping.keys report"
  let ?sonames = "sorted_list_of_set (the ` Mapping.keys report)"
  from a have fin: "finite (the ` Mapping.keys report)" by simp
  from a have a1: "finite (Mapping.keys report)" and a2: "Mapping.keys report \<noteq> {}"
    and a3: "None \<notin> Mapping.keys report"
    by simp_all
  note sk = sorted_keys_strings(1)[OF a1 a2 a3] and img = sorted_keys_strings(2)[OF a1 a2 a3]
  have rt: "report_text report (map Some ?sonames) =
      concat (map (\<lambda>soname.
                      concat (map (\<lambda>symbol. soname @ '':'' @ symbol @ [CHR 0x0A])
                        (sorted_list_of_set (the (Mapping.lookup report (Some soname))))))
                      ?sonames)"
  proof -
    have lk: "Mapping.lookup report (Some soname) \<noteq> None"
      if "soname \<in> set ?sonames" for soname
    proof -
      from that img have "Some soname \<in> Mapping.keys report" by blast
      then show ?thesis by (simp add: Mapping.keys_dom_lookup domIff)
    qed
    have "(case Mapping.lookup report (Some soname) of None \<Rightarrow> []
                | Some symbols \<Rightarrow> entry_lines (Some soname) symbols) =
               concat (map (\<lambda>symbol. soname @ '':'' @ symbol @ [CHR 0x0A])
                        (sorted_list_of_set (the (Mapping.lookup report (Some soname)))))"
      if m: "soname \<in> set ?sonames" for soname
    proof -
      from lk[OF m] obtain symbols where "Mapping.lookup report (Some soname) = Some symbols"
        by auto
      then show ?thesis by (simp add: entry_lines_def)
    qed
    then show ?thesis
      unfolding report_text_def map_map comp_def
      by (intro arg_cong[where f = concat] map_cong refl)
  qed
  from a sk rt have
    "sorted ?sonames \<and> distinct ?sonames \<and> Some ` set ?sonames = Mapping.keys report
     \<and> write_abi_report fs report_file report =
         (None, fs(report_file \<mapsto>
            concat (map (\<lambda>soname.
              concat (map (\<lambda>symbol. soname @ '':'' @ symbol @ [CHR 0x0A])
                (sorted_list_of_set (the (Mapping.lookup report (Some soname))))))
              ?sonames)))"
    using img by (simp add: write_abi_report_def)
  then show "\<exists>sonames. sorted sonames \<and> distinct sonames
             \<and> Some ` set sonames = Mapping.keys report
             \<and> write_abi_report fs report_file report =
                 (None, fs(report_file \<mapsto>
                    concat (map (\<lambda>soname.
                      concat (map (\<lambda>symbol. soname @ '':'' @ symbol @ [CHR 0x0A])
                        (sorted_list_of_set (the (Mapping.lookup report (Some soname))))))
                      sonames)))"
    by (rule exI)
qed


theorem report_files_independent_of_listing_order_witness:
  "(\<forall>d. set (demo_listdir' d) = set (listdir demo_world d))
   \<and> (\<forall>d. walked_paths (demo_walk' d) = walked_paths (os_walk demo_world d))
   \<and> demo_listdir' (demo_src @ ''/usr/lib'') \<noteq> listdir demo_world (demo_src @ ''/usr/lib'')
   \<and> demo_walk' demo_src \<noteq> os_walk demo_world demo_src
   \<and> examine_abi (demo_world\<lparr>listdir := demo_listdir', os_walk := demo_walk'\<rparr>) Map.empty ''/t''
        = examine_abi demo_world Map.empty ''/t''
   \<and> examine_abi demo_world (snd (examine_abi demo_world Map.empty ''/t'')) ''/t''
        = examine_abi demo_world Map.empty ''/t''
   \<and> (\<exists>names. sorted names \<and> distinct names \<and> set names = {''libz.so.1'', ''libc.so.6''}
         \<and> write_deps Map.empty ''/t/abi_used_libs'' {''libz.so.1'', ''libc.so.6''} =
             [''/t/abi_used_libs'' \<mapsto> concat (map (\<lambda>soname. soname @ [CHR 0x0A]) names)])
   \<and> (\<exists>sonames. sorted sonames \<and> distinct sonames
         \<and> Some ` set sonames =
             Mapping.keys (Mapping.update (Some ''libfoo.so.1'') {''foo'', ''bar''} Mapping.empty)
         \<and> fst (write_abi_report Map.empty ''/t/abi_symbols''
               (Mapping.update (Some ''libfoo.so.1'') {''foo'', ''bar''} Mapping.empty)) = None)"
proof -
  have h1: "\<forall>d. set (demo_listdir' d) = set (listdir demo_world d)"
    by (simp add: demo_listdir'_def)
  have wp: "walked_paths (rev (map (\<lambda>(root, dirs, files). (root, rev dirs, rev files)) ts))
            = walked_paths ts" for ts
    by (auto simp: walked_paths_def)
  have h2: "\<forall>d. walked_paths (demo_walk' d) = walked_paths (os_walk demo_world d)"
    by (simp add: demo_walk'_def wp)
  have n1: "demo_listdir' (demo_src @ ''/usr/lib'') \<noteq> listdir demo_world (demo_src @ ''/usr/lib'')"
    by code_simp
  have n2: "demo_walk' demo_src \<noteq> os_walk demo_world demo_src"
    by code_simp
  note inst = report_files_independent_of_listing_order[OF h1 h2, of Map.empty "''/t''"]
  note c1 = inst[THEN conjunct1]
  note c2 = inst[THEN conjunct2, THEN conjunct1]
  note c3 = inst[THEN conjunct2, THEN conjunct2, THEN conjunct1, rule_format]
  note c4 = inst[THEN conjunct2, THEN conjunct2, THEN conjunct2, rule_format]
  have d: "finite {''libz.so.1'', ''libc.so.6''} \<and> {''libz.so.1'', ''libc.so.6''} \<noteq> {}"
    by simp
  have k: "finite (Mapping.keys (Mapping.update (Some ''libfoo.so.1'') {''foo'', ''bar''} Mapping.empty))
     \<and> Mapping.keys (Mapping.update (Some ''libfoo.so.1'') {''foo'', ''bar''} Mapping.empty) \<noteq> {}
     \<and> None \<notin> Mapping.keys (Mapping.update (Some ''libfoo.so.1'') {''foo'', ''bar''} Mapping.empty)"
    by simp
  from c4[OF k, of "''/t/abi_symbols''"] obtain sonames where
    s: "sorted sonames \<and> distinct sonames
         \<and> Some ` set sonames =
             Mapping.keys (Mapping.update (Some ''libfoo.so.1'') {''foo'', ''bar''} Mapping.empty)"
    and w: "write_abi_report Map.empty ''/t/abi_symbols''
               (Mapping.update (Some ''libfoo.so.1'') {''foo'', ''bar''} Mapping.empty) =
            (None, [''/t/abi_symbols'' \<mapsto>
                    concat (map (\<lambda>soname.
                      concat (map (\<lambda>symbol. soname @ '':'' @ symbol @ [CHR 0x0A])
                        (sorted_list_of_set (the (Mapping.lookup
                           (Mapping.update (Some ''libfoo.so.1'') {''foo'', ''bar''} Mapping.empty)
                           (Some soname))))))
                      sonames)])"
    by (elim exE conjE) (rule that, intro conjI)
  from w have w': "fst (write_abi_report Map.empty ''/t/abi_symbols''
               (Mapping.update (Some ''libfoo.so.1'') {''foo'', ''bar''} Mapping.empty)) = None"
    by (simp only: fst_conv)
  from s w' have e4: "\<exists>sonames. sorted sonames \<and> distinct sonames
         \<and> Some ` set sonames =
             Mapping.keys (Mapping.update (Some ''libfoo.so.1'') {''foo'', ''bar''} Mapping.empty)
         \<and> fst (write_abi_report Map.empty ''/t/abi_symbols''
               (Mapping.update (Some ''libfoo.so.1'') {''foo'', ''bar''} Mapping.empty)) = None"
    by (intro exI[of _ sonames] conjI) (elim conjE, assumption)+
  from h1 h2 n1 n2 c1 c2 c3[OF d, of "''/t/abi_used_libs''"] e4 show ?thesis
    by (intro conjI)
qed

end
